theory Spec2Isabelle
  imports Complex_Main "HOL-Library.Multiset"
begin

section \<open>Game models\<close>

text \<open>
  The models of \<^verbatim>\<open>backend/server.py\<close>. \<^verbatim>\<open>Card.color\<close> is a
  \<^verbatim>\<open>Literal["red", "blue", "green", "yellow", "wild"]\<close>, so a parsed card holds
  one of five colours; \<^verbatim>\<open>Card.value\<close> is an unconstrained \<^verbatim>\<open>str\<close>.
\<close>

datatype color = Red | Blue | Green | Yellow | Wild

record Card =
  color :: color
  "value" :: string

text \<open>
  The field \<^verbatim>\<open>Player.id\<close> is called \<open>pid\<close> here (\<open>id\<close> is the identity
  function of HOL).
\<close>

record Player =
  pid :: string
  name :: string
  hand :: "Card list"
  card_count :: int

record GameState =
  game_id :: string
  players :: "Player list"
  current_player_index :: int
  direction :: int
  discard_pile :: "Card list"
  top_card :: Card
  draw_pile_count :: int
  winner :: "string option"
  game_over :: bool
  last_action :: "string option"

record PlayCardRequest =
  player_id :: string
  card :: Card
  chosen_color :: "string option"

text \<open>
  Every \<^verbatim>\<open>raise\<close> of the handlers is a value. The handlers raise
  \<^verbatim>\<open>HTTPException(status_code, detail)\<close>; Python itself raises
  \<^verbatim>\<open>IndexError\<close> on an index out of range and on \<^verbatim>\<open>pop\<close> from an empty
  list, and pydantic raises \<^verbatim>\<open>ValidationError\<close> when \<^verbatim>\<open>Card(color=...)\<close>
  is given a string that is not one of the five literals.
\<close>

datatype error = HTTPException int string | IndexError | ValidationError

abbreviation InvalidPlayerCount :: error where
  "InvalidPlayerCount \<equiv> HTTPException 400 ''Game requires 2-4 players''"

abbreviation GameNotFound :: error where
  "GameNotFound \<equiv> HTTPException 404 ''Game not found''"

abbreviation GameOver :: error where
  "GameOver \<equiv> HTTPException 400 ''Game is over''"

abbreviation NotYourTurn :: error where
  "NotYourTurn \<equiv> HTTPException 400 ''Not your turn''"

abbreviation CardNotInHand :: error where
  "CardNotInHand \<equiv> HTTPException 400 ''Card not in hand''"

abbreviation IllegalPlay :: error where
  "IllegalPlay \<equiv> HTTPException 400 ''Invalid card play''"

abbreviation PlayerNotFound :: error where
  "PlayerNotFound \<equiv> HTTPException 404 ''Player not found''"

abbreviation InvalidUnoCall :: error where
  "InvalidUnoCall \<equiv> HTTPException 400 ''You don't have exactly one card''"

text \<open>
  The collection \<^verbatim>\<open>db.games\<close>, read with \<^verbatim>\<open>find_one({"game_id": game_id})\<close>
  and written with \<^verbatim>\<open>insert_one\<close> and \<^verbatim>\<open>replace_one({"game_id": game_id}, ...)\<close>:
  a map from the game id to the stored state.
\<close>

type_synonym games = "string \<rightharpoonup> GameState"

section \<open>Python primitives\<close>

text \<open>The text of a colour literal, and the validation of \<^verbatim>\<open>Card(color=s, ...)\<close>.\<close>

fun color_str :: "color \<Rightarrow> string" where
  "color_str Red = ''red''"
| "color_str Blue = ''blue''"
| "color_str Green = ''green''"
| "color_str Yellow = ''yellow''"
| "color_str Wild = ''wild''"

definition parse_color :: "string \<Rightarrow> color option" where
  "parse_color s =
     (if s = ''red'' then Some Red
      else if s = ''blue'' then Some Blue
      else if s = ''green'' then Some Green
      else if s = ''yellow'' then Some Yellow
      else if s = ''wild'' then Some Wild
      else None)"

definition mk_card :: "string \<Rightarrow> string \<Rightarrow> error + Card" where
  "mk_card c v =
     (case parse_color c of
        None \<Rightarrow> Inl ValidationError
      | Some col \<Rightarrow> Inr \<lparr>color = col, value = v\<rparr>)"

text \<open>
  \<^verbatim>\<open>xs[i]\<close>: a negative index counts from the end, an index out of range raises.
  The result is the position read.
\<close>

definition py_index :: "'a list \<Rightarrow> int \<Rightarrow> error + nat" where
  "py_index xs i =
     (let n = int (length xs); j = (if i < 0 then n + i else i)
      in if 0 \<le> j \<and> j < n then Inr (nat j) else Inl IndexError)"

text \<open>\<^verbatim>\<open>xs.pop()\<close> takes the last element; \<^verbatim>\<open>xs.pop(i)\<close> the one at \<open>i\<close>.\<close>

definition pop :: "'a list \<Rightarrow> error + ('a \<times> 'a list)" where
  "pop xs = (if xs = [] then Inl IndexError else Inr (last xs, butlast xs))"

definition pop_at :: "'a list \<Rightarrow> nat \<Rightarrow> 'a \<times> 'a list" where
  "pop_at xs i = (xs ! i, take i xs @ drop (Suc i) xs)"

text \<open>\<^verbatim>\<open>str(n)\<close> for a digit \<open>n\<close> (the source applies it to 0..9 only).\<close>

definition digit_str :: "nat \<Rightarrow> string" where
  "digit_str n = [''0123456789'' ! n]"

text \<open>The truth value of an \<^verbatim>\<open>Optional[str]\<close>: \<^verbatim>\<open>None\<close> and \<^verbatim>\<open>""\<close> are false.\<close>

fun truthy :: "string option \<Rightarrow> bool" where
  "truthy None = False"
| "truthy (Some s) = (s \<noteq> [])"

section \<open>Game logic\<close>

definition can_play_card :: "Card \<Rightarrow> Card \<Rightarrow> bool" where
  "can_play_card c top_c =
     (if color c = Wild then True
      else if color c = color top_c then True
      else if value c = value top_c then True
      else False)"

text \<open>
  The search of \<^verbatim>\<open>play_card\<close> for the requested card: the first index of the hand
  whose card has the requested colour and value.
\<close>

fun card_in_hand :: "Card list \<Rightarrow> Card \<Rightarrow> nat option" where
  "card_in_hand [] rc = None"
| "card_in_hand (c # cs) rc =
     (if color c = color rc \<and> value c = value rc then Some 0
      else map_option Suc (card_in_hand cs rc))"

text \<open>
  The chain \<^verbatim>\<open>if played_card.value == "skip": ... elif ... else\<close> of
  \<^verbatim>\<open>play_card\<close>: the action tag, \<^verbatim>\<open>next_player_change\<close>, the direction after
  the card and \<^verbatim>\<open>last_action\<close>.
\<close>

definition handle_action :: "string \<Rightarrow> Card \<Rightarrow> int \<Rightarrow> string option \<times> int \<times> int \<times> string" where
  "handle_action nm played_card dir =
     (if value played_card = ''skip'' then
        (Some ''skip'', 2, dir, nm @ '' played Skip'')
      else if value played_card = ''reverse'' then
        (Some ''reverse'', 1, dir * (- 1), nm @ '' reversed direction'')
      else if value played_card = ''draw2'' then
        (Some ''draw2'', 2, dir, nm @ '' played Draw Two'')
      else if value played_card = ''wild4'' then
        (Some ''wild4'', 2, dir, nm @ '' played Wild Draw Four'')
      else if value played_card = ''wild'' then
        (Some ''wild'', 1, dir, nm @ '' played Wild'')
      else
        (None, 1, dir,
         nm @ '' played '' @ color_str (color played_card) @ '' '' @ value played_card))"

text \<open>
  The body of \<^verbatim>\<open>play_card\<close> on the loaded state: either the exception raised, or
  the state handed to \<^verbatim>\<open>replace_one\<close> and the \<^verbatim>\<open>action\<close> of the response.
\<close>

definition play_card_state ::
  "GameState \<Rightarrow> PlayCardRequest \<Rightarrow> error + (GameState \<times> string option)" where
  "play_card_state game_state request =
     (if game_over game_state then Inl GameOver
      else case py_index (players game_state) (current_player_index game_state) of
        Inl e \<Rightarrow> Inl e
      | Inr i \<Rightarrow>
          let current_player = players game_state ! i in
          if pid current_player \<noteq> player_id request then Inl NotYourTurn
          else case card_in_hand (hand current_player) (card request) of
            None \<Rightarrow> Inl CardNotInHand
          | Some idx \<Rightarrow>
              if \<not> can_play_card (card request) (top_card game_state) then Inl IllegalPlay
              else
                let (popped, hand1) = pop_at (hand current_player) idx;
                    player1 = current_player\<lparr>hand := hand1, card_count := int (length hand1)\<rparr>
                in case (if color popped = Wild \<and> truthy (chosen_color request)
                         then mk_card (the (chosen_color request)) (value popped)
                         else Inr popped) of
                  Inl e \<Rightarrow> Inl e
                | Inr played_card \<Rightarrow>
                    let gs1 = game_state
                          \<lparr>players := (players game_state)[i := player1],
                           discard_pile := discard_pile game_state @ [played_card],
                           top_card := played_card\<rparr>
                    in if length hand1 = 0 then
                         Inr (gs1\<lparr>winner := Some (name current_player),
                                   game_over := True,
                                   last_action := Some (name current_player @ '' wins!'')\<rparr>,
                              Some ''win'')
                       else
                         let (action, next_player_change, dir1, msg) =
                               handle_action (name current_player) played_card (direction gs1)
                         in Inr (gs1\<lparr>direction := dir1,
                                       last_action := Some msg,
                                       current_player_index :=
                                         (current_player_index gs1 + next_player_change * dir1)
                                           mod int (length (players gs1))\<rparr>,
                                 action))"

text \<open>
  The handler: the lookup, the body, and \<^verbatim>\<open>replace_one\<close> on success only. The
  first component is the collection after the call.
\<close>

definition play_card ::
  "games \<Rightarrow> string \<Rightarrow> PlayCardRequest \<Rightarrow> games \<times> (error + (GameState \<times> string option))" where
  "play_card db gid request =
     (case db gid of
        None \<Rightarrow> (db, Inl GameNotFound)
      | Some game_state \<Rightarrow>
          (case play_card_state game_state request of
             Inl e \<Rightarrow> (db, Inl e)
           | Inr (gs, action) \<Rightarrow> (db(gid \<mapsto> gs), Inr (gs, action))))"

text \<open>
  The random source of one \<^verbatim>\<open>draw_card\<close> call: the two results of
  \<^verbatim>\<open>random.random()\<close> and the positions \<^verbatim>\<open>random.choice\<close> picks in
  \<^verbatim>\<open>colors\<close> and \<^verbatim>\<open>values\<close>. \<^verbatim>\<open>random.choice(xs)\<close> returns
  \<^verbatim>\<open>xs[i]\<close> for a position below \<^verbatim>\<open>len(xs)\<close>; the model reduces any
  number of the source below the length.
\<close>

record DrawRandom =
  random1 :: real
  random2 :: real
  color_pick :: nat
  value_pick :: nat

definition choice :: "'a list \<Rightarrow> nat \<Rightarrow> 'a" where
  "choice xs k = xs ! (k mod length xs)"

definition colors :: "color list" where
  "colors = [Red, Blue, Green, Yellow]"

definition draw_values :: "string list" where
  "draw_values = map digit_str [0..<10] @ [''skip'', ''reverse'', ''draw2'']"

definition new_card :: "DrawRandom \<Rightarrow> Card" where
  "new_card rnd =
     (if random1 rnd < 0.1 then
        \<lparr>color = Wild, value = (if random2 rnd < 0.5 then ''wild'' else ''wild4'')\<rparr>
      else
        \<lparr>color = choice colors (color_pick rnd), value = choice draw_values (value_pick rnd)\<rparr>)"

text \<open>
  The body of \<^verbatim>\<open>draw_card\<close> on the loaded state: the exception, or the state
  handed to \<^verbatim>\<open>replace_one\<close> with \<^verbatim>\<open>drawn_card\<close> and \<^verbatim>\<open>can_play\<close>.
\<close>

definition draw_card_state ::
  "DrawRandom \<Rightarrow> GameState \<Rightarrow> string \<Rightarrow> error + (GameState \<times> Card \<times> bool)" where
  "draw_card_state rnd game_state request_player_id =
     (if game_over game_state then Inl GameOver
      else case py_index (players game_state) (current_player_index game_state) of
        Inl e \<Rightarrow> Inl e
      | Inr i \<Rightarrow>
          let current_player = players game_state ! i in
          if pid current_player \<noteq> request_player_id then Inl NotYourTurn
          else
            let drawn = new_card rnd;
                hand1 = hand current_player @ [drawn];
                player1 = current_player\<lparr>hand := hand1, card_count := int (length hand1)\<rparr>;
                gs1 = game_state
                  \<lparr>players := (players game_state)[i := player1],
                   draw_pile_count := max 0 (draw_pile_count game_state - 1),
                   last_action := Some (name current_player @ '' drew a card'')\<rparr>;
                can_play = can_play_card drawn (top_card gs1);
                gs2 = (if \<not> can_play then
                         gs1\<lparr>current_player_index :=
                               (current_player_index gs1 + direction gs1)
                                 mod int (length (players gs1))\<rparr>
                       else gs1)
            in Inr (gs2, drawn, can_play))"

definition draw_card ::
  "DrawRandom \<Rightarrow> games \<Rightarrow> string \<Rightarrow> string \<Rightarrow>
   games \<times> (error + (GameState \<times> Card \<times> bool))" where
  "draw_card rnd db gid request_player_id =
     (case db gid of
        None \<Rightarrow> (db, Inl GameNotFound)
      | Some game_state \<Rightarrow>
          (case draw_card_state rnd game_state request_player_id of
             Inl e \<Rightarrow> (db, Inl e)
           | Inr (gs, drawn, can_play) \<Rightarrow> (db(gid \<mapsto> gs), Inr (gs, drawn, can_play))))"

text \<open>
  \<^verbatim>\<open>call_uno\<close>: the player is the first one with the requested id; the response
  of a success is the message \<^verbatim>\<open>"UNO!"\<close>.
\<close>

definition call_uno_state :: "GameState \<Rightarrow> string \<Rightarrow> error + GameState" where
  "call_uno_state game_state request_player_id =
     (case find (\<lambda>p. pid p = request_player_id) (players game_state) of
        None \<Rightarrow> Inl PlayerNotFound
      | Some player \<Rightarrow>
          if length (hand player) = 1 then
            Inr (game_state\<lparr>last_action := Some (name player @ '' called UNO!'')\<rparr>)
          else Inl InvalidUnoCall)"

definition call_uno :: "games \<Rightarrow> string \<Rightarrow> string \<Rightarrow> games \<times> (error + string)" where
  "call_uno db gid request_player_id =
     (case db gid of
        None \<Rightarrow> (db, Inl GameNotFound)
      | Some game_state \<Rightarrow>
          (case call_uno_state game_state request_player_id of
             Inl e \<Rightarrow> (db, Inl e)
           | Inr gs \<Rightarrow> (db(gid \<mapsto> gs), Inr ''UNO!'')))"

section \<open>Deck and game creation\<close>

definition number_cards :: "color \<Rightarrow> Card list" where
  "number_cards c =
     \<lparr>color = c, value = ''0''\<rparr> #
     concat (map (\<lambda>num. [\<lparr>color = c, value = digit_str num\<rparr>,
                          \<lparr>color = c, value = digit_str num\<rparr>]) [1..<10])"

definition action_cards :: "color \<Rightarrow> Card list" where
  "action_cards c =
     concat (replicate 2 [\<lparr>color = c, value = ''skip''\<rparr>,
                          \<lparr>color = c, value = ''reverse''\<rparr>,
                          \<lparr>color = c, value = ''draw2''\<rparr>])"

definition create_deck :: "Card list" where
  "create_deck =
     concat (map number_cards colors) @
     concat (map action_cards colors) @
     concat (replicate 4 [\<lparr>color = Wild, value = ''wild''\<rparr>,
                          \<lparr>color = Wild, value = ''wild4''\<rparr>])"

text \<open>
  The random source of \<^verbatim>\<open>create_new_game\<close>: \<open>sh k\<close> is what the \<open>k\<close>-th call
  of \<^verbatim>\<open>random.shuffle\<close> makes of the list it is given, \<open>uuid k\<close> is the text of
  the \<open>k\<close>-th \<^verbatim>\<open>uuid.uuid4()\<close>. A shuffle rearranges its list.
\<close>

definition is_shuffle :: "(nat \<Rightarrow> Card list \<Rightarrow> Card list) \<Rightarrow> bool" where
  "is_shuffle sh = (\<forall>k xs. mset (sh k xs) = mset xs)"

text \<open>\<^verbatim>\<open>[deck.pop() for _ in range(n)]\<close>: the cards popped, in that order, and the deck left.\<close>

fun pop_n :: "nat \<Rightarrow> 'a list \<Rightarrow> error + ('a list \<times> 'a list)" where
  "pop_n 0 deck = Inr ([], deck)"
| "pop_n (Suc n) deck =
     (case pop deck of
        Inl e \<Rightarrow> Inl e
      | Inr (c, deck1) \<Rightarrow>
          (case pop_n n deck1 of
             Inl e \<Rightarrow> Inl e
           | Inr (cs, deck2) \<Rightarrow> Inr (c # cs, deck2)))"

text \<open>The loop over \<^verbatim>\<open>request.player_names\<close>; \<open>k\<close> counts the ids drawn so far.\<close>

fun deal ::
  "(nat \<Rightarrow> string) \<Rightarrow> nat \<Rightarrow> string list \<Rightarrow> Card list \<Rightarrow> error + (Player list \<times> Card list)" where
  "deal uuid k [] deck = Inr ([], deck)"
| "deal uuid k (nm # names) deck =
     (case pop_n 7 deck of
        Inl e \<Rightarrow> Inl e
      | Inr (player_hand, deck1) \<Rightarrow>
          (case deal uuid (Suc k) names deck1 of
             Inl e \<Rightarrow> Inl e
           | Inr (ps, deck2) \<Rightarrow>
               Inr (\<lparr>pid = uuid k, name = nm, hand = player_hand,
                     card_count = int (length player_hand)\<rparr> # ps, deck2)))"

definition is_action_value :: "string \<Rightarrow> bool" where
  "is_action_value v = (v \<in> set [''wild'', ''wild4'', ''skip'', ''reverse'', ''draw2''])"

text \<open>
  The loop \<^verbatim>\<open>while top_card.value in [...]\<close>, entered with the candidate already
  popped and \<open>k\<close> shuffles made. Index 0 of the Python list is the head of the list
  here, and \<^verbatim>\<open>pop()\<close> takes the last element. The loop has no bound in the source:
  \<open>None\<close> is a run that never leaves it.
\<close>

partial_function (option) initial_top_card ::
  "(nat \<Rightarrow> Card list \<Rightarrow> Card list) \<Rightarrow> nat \<Rightarrow> Card list \<Rightarrow> Card \<Rightarrow>
   (error + (Card \<times> Card list)) option" where
  "initial_top_card sh k deck candidate =
     (if is_action_value (value candidate) then
        (let deck1 = sh k (candidate # deck) in
         case pop deck1 of
           Inl e \<Rightarrow> Some (Inl e)
         | Inr (c, deck2) \<Rightarrow> initial_top_card sh (Suc k) deck2 c)
      else Some (Inr (candidate, deck)))"

text \<open>
  \<^verbatim>\<open>create_new_game\<close>: \<^verbatim>\<open>insert_one\<close> stores the state under its new id (the
  ids of \<^verbatim>\<open>uuid4\<close> are taken as new to the collection). \<open>None\<close> is a run whose
  top-card loop never ends.
\<close>

definition create_new_game ::
  "(nat \<Rightarrow> Card list \<Rightarrow> Card list) \<Rightarrow> (nat \<Rightarrow> string) \<Rightarrow> games \<Rightarrow> string list \<Rightarrow>
   (games \<times> (error + GameState)) option" where
  "create_new_game sh uuid db player_names =
     (if length player_names < 2 \<or> length player_names > 4 then
        Some (db, Inl InvalidPlayerCount)
      else
        let deck = sh 0 create_deck in
        case deal uuid 0 player_names deck of
          Inl e \<Rightarrow> Some (db, Inl e)
        | Inr (ps, deck1) \<Rightarrow>
            (case pop deck1 of
               Inl e \<Rightarrow> Some (db, Inl e)
             | Inr (candidate, deck2) \<Rightarrow>
                 (case initial_top_card sh 1 deck2 candidate of
                    None \<Rightarrow> None
                  | Some (Inl e) \<Rightarrow> Some (db, Inl e)
                  | Some (Inr (top_c, deck3)) \<Rightarrow>
                      let gid = uuid (length player_names);
                          game_state =
                            \<lparr>game_id = gid, players = ps, current_player_index = 0,
                             direction = 1, discard_pile = [top_c], top_card = top_c,
                             draw_pile_count = int (length deck3), winner = None,
                             game_over = False, last_action = Some ''Game started''\<rparr>
                      in Some (db(gid \<mapsto> game_state), Inr game_state))))"

section \<open>Notions of the properties\<close>

text \<open>
  The recolouring of a wild card fails when the request carries a non-empty
  \<^verbatim>\<open>chosen_color\<close> that is none of the five colour literals: the handler then
  stops with the validation error of \<^verbatim>\<open>Card(color=request.chosen_color, ...)\<close>.
\<close>

definition recolor_fails :: "PlayCardRequest \<Rightarrow> bool" where
  "recolor_fails rq =
     (color (card rq) = Wild \<and> truthy (chosen_color rq) \<and>
      parse_color (the (chosen_color rq)) = None)"

text \<open>
  \<^verbatim>\<open>next_player_change\<close> as the specification words it: 2 for skip, draw2 and
  wild4, 1 for every other value.
\<close>

definition next_player_change :: "Card \<Rightarrow> int" where
  "next_player_change c =
     (if value c = ''skip'' \<or> value c = ''draw2'' \<or> value c = ''wild4'' then 2 else 1)"

text \<open>
  The rounds of the top-card loop, run without its test: \<open>retries sh k j (deck, c)\<close> is
  the deck and the candidate after \<open>j\<close> rounds of putting the candidate at index 0,
  shuffling (the \<open>k\<close>-th shuffle first) and popping.
\<close>

primrec retries ::
  "(nat \<Rightarrow> Card list \<Rightarrow> Card list) \<Rightarrow> nat \<Rightarrow> nat \<Rightarrow> Card list \<times> Card \<Rightarrow> Card list \<times> Card" where
  "retries sh k 0 dc = dc"
| "retries sh k (Suc j) dc =
     retries sh (Suc k) j
       (let deck1 = sh k (snd dc # fst dc) in (butlast deck1, last deck1))"

text \<open>
  The deck and the first candidate of \<^verbatim>\<open>create_new_game\<close> for \<open>n\<close> players: the
  hands are popped from the end of the shuffled deck of 108, so the candidate is the
  card at index \<open>107 - 7 * n\<close> and the deck is what lies below it. The loop finds a
  top card when some round leaves a candidate that is not an action card.
\<close>

definition first_candidate :: "(nat \<Rightarrow> Card list \<Rightarrow> Card list) \<Rightarrow> nat \<Rightarrow> Card list \<times> Card" where
  "first_candidate sh n =
     (let deck = sh 0 create_deck in (take (107 - 7 * n) deck, deck ! (107 - 7 * n)))"

definition top_card_found :: "(nat \<Rightarrow> Card list \<Rightarrow> Card list) \<Rightarrow> nat \<Rightarrow> bool" where
  "top_card_found sh n =
     (\<exists>j. \<not> is_action_value (value (snd (retries sh 1 j (first_candidate sh n)))))"

section \<open>Example states\<close>

definition ex_alice :: Player where
  "ex_alice = \<lparr>pid = ''p1'', name = ''Alice'',
     hand = [\<lparr>color = Red, value = ''skip''\<rparr>, \<lparr>color = Blue, value = ''7''\<rparr>],
     card_count = 2\<rparr>"

definition ex_bob :: Player where
  "ex_bob = \<lparr>pid = ''p2'', name = ''Bob'',
     hand = [\<lparr>color = Wild, value = ''wild4''\<rparr>], card_count = 1\<rparr>"

definition ex_carol :: Player where
  "ex_carol = \<lparr>pid = ''p3'', name = ''Carol'',
     hand = [\<lparr>color = Green, value = ''3''\<rparr>, \<lparr>color = Wild, value = ''wild''\<rparr>],
     card_count = 2\<rparr>"

text \<open>A game of three on a red 5, with Alice (index 0), Bob (1) or Carol (2) to move.\<close>

definition ex_game :: "int \<Rightarrow> GameState" where
  "ex_game turn = \<lparr>game_id = ''g1'', players = [ex_alice, ex_bob, ex_carol],
     current_player_index = turn, direction = 1,
     discard_pile = [\<lparr>color = Red, value = ''5''\<rparr>],
     top_card = \<lparr>color = Red, value = ''5''\<rparr>,
     draw_pile_count = 86, winner = None, game_over = False,
     last_action = Some ''Game started''\<rparr>"

definition ex_games :: "int \<Rightarrow> games" where
  "ex_games turn = [''g1'' \<mapsto> ex_game turn]"

text \<open>
  The same game after Alice has played her last card, and a random source that draws
  a blue 3.
\<close>

definition ex_over :: GameState where
  "ex_over = \<lparr>game_id = ''g1'',
     players = [ex_alice\<lparr>hand := [], card_count := 0\<rparr>, ex_bob, ex_carol],
     current_player_index = 0, direction = 1,
     discard_pile = [\<lparr>color = Red, value = ''5''\<rparr>, \<lparr>color = Red, value = ''skip''\<rparr>],
     top_card = \<lparr>color = Red, value = ''skip''\<rparr>,
     draw_pile_count = 86, winner = Some ''Alice'', game_over = True,
     last_action = Some ''Alice wins!''\<rparr>"

definition ex_random :: DrawRandom where
  "ex_random = \<lparr>random1 = 0.5, random2 = 0.5, color_pick = 1, value_pick = 3\<rparr>"

text \<open>
  Random sources: a shuffle that reverses the new deck and leaves every later list as
  it is, a shuffle that moves the card at index 0 to the end of the list, and ids
  \<open>u\<close>, \<open>uu\<close>, \<open>uuu\<close>, ...
\<close>

definition ex_shuffle :: "nat \<Rightarrow> Card list \<Rightarrow> Card list" where
  "ex_shuffle k xs = (if k = 0 then rev xs else xs)"

definition stuck_shuffle :: "nat \<Rightarrow> Card list \<Rightarrow> Card list" where
  "stuck_shuffle k xs = rotate1 xs"

definition ex_uuid :: "nat \<Rightarrow> string" where
  "ex_uuid k = replicate (Suc k) CHR ''u''"

text \<open>A source of ids that gives the same id at every call.\<close>

definition same_uuid :: "nat \<Rightarrow> string" where
  "same_uuid k = ''u''"

section \<open>Lemmas on the handlers\<close>

lemma card_in_hand_Some:
  "card_in_hand h rc = Some idx \<Longrightarrow>
     idx < length h \<and> color (h ! idx) = color rc \<and> value (h ! idx) = value rc"
proof (induction h arbitrary: idx)
  case Nil
  then show ?case by simp
next
  case (Cons c cs)
  then show ?case by (auto split: if_splits)
qed

lemma card_in_hand_None:
  "(card_in_hand h rc = None) = (\<forall>c\<in>set h. \<not> (color c = color rc \<and> value c = value rc))"
  by (induction h) auto

lemma py_index_Inr: "py_index xs i = Inr j \<Longrightarrow> j < length xs"
  by (auto simp: py_index_def Let_def split: if_splits)

lemma handle_action_change:
  "handle_action nm c dir = (a, n, d, m) \<Longrightarrow>
     n = next_player_change c \<and> d = (if value c = ''reverse'' then - dir else dir)"
  by (auto simp: handle_action_def next_player_change_def split: if_splits)

lemma played_value:
  "(if color popped = Wild \<and> truthy cc then mk_card (the cc) (value popped) else Inr popped) = Inr played
   \<Longrightarrow> value played = value popped"
  by (auto simp: mk_card_def split: if_splits option.splits)

lemma recolor_total:
  "\<not> (color c = Wild \<and> truthy cc \<and> parse_color (the cc) = None) \<Longrightarrow>
   \<exists>played. (if color c = Wild \<and> truthy cc then mk_card (the cc) (value c) else Inr c) = Inr played"
  by (cases "parse_color (the cc)") (simp_all add: mk_card_def)

lemma pop_at_length:
  "idx < length h \<Longrightarrow> pop_at h idx = (c, h1) \<Longrightarrow> c = h ! idx \<and> length h1 = length h - 1"
  by (auto simp: pop_at_def)

lemma play_card_state_legal:
  assumes "\<not> game_over gs"
    and "py_index (players gs) (current_player_index gs) = Inr i"
    and "pid (players gs ! i) = player_id rq"
    and "card_in_hand (hand (players gs ! i)) (card rq) = Some idx"
    and "can_play_card (card rq) (top_card gs)"
    and "pop_at (hand (players gs ! i)) idx = (popped, hand1)"
    and "(if color popped = Wild \<and> truthy (chosen_color rq)
          then mk_card (the (chosen_color rq)) (value popped)
          else Inr popped) = Inr played"
    and "handle_action (name (players gs ! i)) played (direction gs) = (a, n, d, m)"
  shows "play_card_state gs rq =
     (let gs1 = gs\<lparr>players := (players gs)[i := (players gs ! i)\<lparr>hand := hand1, card_count := int (length hand1)\<rparr>],
                    discard_pile := discard_pile gs @ [played],
                    top_card := played\<rparr>
      in if length hand1 = 0 then
           Inr (gs1\<lparr>winner := Some (name (players gs ! i)), game_over := True,
                     last_action := Some (name (players gs ! i) @ '' wins!'')\<rparr>, Some ''win'')
         else
           Inr (gs1\<lparr>direction := d, last_action := Some m,
                     current_player_index :=
                       (current_player_index gs + n * d) mod int (length (players gs))\<rparr>, a))"
  using assms unfolding play_card_state_def by (simp add: Let_def)

lemma recolor_color:
  "(if color popped = Wild \<and> truthy cc then mk_card (the cc) (value popped) else Inr popped) = Inr played
   \<Longrightarrow> color played =
         (if color popped = Wild \<and> truthy cc then the (parse_color (the cc)) else color popped)"
  by (auto simp: mk_card_def split: if_splits option.splits)

lemma play_card_legal:
  assumes "db gid = Some gs"
    and "\<not> game_over gs"
    and "py_index (players gs) (current_player_index gs) = Inr i"
    and "pid (players gs ! i) = player_id rq"
    and "card_in_hand (hand (players gs ! i)) (card rq) = Some idx"
    and "can_play_card (card rq) (top_card gs)"
    and "\<not> recolor_fails rq"
  shows "\<exists>gs' action.
           play_card db gid rq = (db(gid \<mapsto> gs'), Inr (gs', action)) \<and>
           players gs' =
             (players gs)[i := (players gs ! i)
                \<lparr>hand := snd (pop_at (hand (players gs ! i)) idx),
                 card_count := int (length (snd (pop_at (hand (players gs ! i)) idx)))\<rparr>] \<and>
           length (snd (pop_at (hand (players gs ! i)) idx)) = length (hand (players gs ! i)) - 1 \<and>
           discard_pile gs' = discard_pile gs @ [top_card gs'] \<and>
           value (top_card gs') = value (card rq) \<and>
           color (top_card gs') =
             (if color (card rq) = Wild \<and> truthy (chosen_color rq)
              then the (parse_color (the (chosen_color rq))) else color (card rq)) \<and>
           (if length (hand (players gs ! i)) = 1 then
              action = Some ''win'' \<and> winner gs' = Some (name (players gs ! i)) \<and> game_over gs' \<and>
              direction gs' = direction gs \<and>
              current_player_index gs' = current_player_index gs
            else
              winner gs' = winner gs \<and> game_over gs' = game_over gs \<and>
              direction gs' = (if value (card rq) = ''reverse'' then - direction gs else direction gs) \<and>
              current_player_index gs' =
                (current_player_index gs + next_player_change (card rq) * direction gs')
                  mod int (length (players gs)))"
proof -
  let ?p = "players gs ! i"
  from assms(5) have idx: "idx < length (hand ?p)"
    and col: "color (hand ?p ! idx) = color (card rq)"
    and val: "value (hand ?p ! idx) = value (card rq)"
    using card_in_hand_Some by blast+
  obtain popped hand1 where pop: "pop_at (hand ?p) idx = (popped, hand1)"
    by (cases "pop_at (hand ?p) idx")
  from pop_at_length [OF idx pop] have popped: "popped = hand ?p ! idx"
    and len: "length hand1 = length (hand ?p) - 1" by simp_all
  obtain played where played:
    "(if color popped = Wild \<and> truthy (chosen_color rq)
      then mk_card (the (chosen_color rq)) (value popped)
      else Inr popped) = Inr played"
    using recolor_total [of popped "chosen_color rq"] assms(7) col popped
    unfolding recolor_fails_def by auto
  have pv: "value played = value (card rq)"
    using played_value [OF played] val popped by simp
  have pc: "color played =
      (if color (card rq) = Wild \<and> truthy (chosen_color rq)
       then the (parse_color (the (chosen_color rq))) else color (card rq))"
    using recolor_color [OF played] col popped by simp
  have win: "(length hand1 = 0) = (length (hand ?p) = 1)"
    using idx len by auto
  have h1: "snd (pop_at (hand ?p) idx) = hand1"
    using pop by simp
  obtain a n d m where ha: "handle_action (name ?p) played (direction gs) = (a, n, d, m)"
    by (metis prod_cases4)
  from handle_action_change [OF ha] pv
  have n: "n = next_player_change (card rq)"
    and d: "d = (if value (card rq) = ''reverse'' then - direction gs else direction gs)"
    by (simp_all add: next_player_change_def)
  show ?thesis
  proof (cases "length (hand ?p) = 1")
    case True
    then show ?thesis
      using play_card_state_legal [OF assms(2-6) pop played ha] assms(1) win len pv pc h1
      by (simp add: play_card_def Let_def)
  next
    case False
    then show ?thesis
      using play_card_state_legal [OF assms(2-6) pop played ha] assms(1) win len pv pc n d h1
      by (simp add: play_card_def Let_def)
  qed
qed


lemma wild_can_play: "color c = Wild \<Longrightarrow> can_play_card c t"
  by (simp add: can_play_card_def)

lemma play_card_recolor_fails:
  assumes "db gid = Some gs"
    and "\<not> game_over gs"
    and "py_index (players gs) (current_player_index gs) = Inr i"
    and "pid (players gs ! i) = player_id rq"
    and "card_in_hand (hand (players gs ! i)) (card rq) = Some idx"
    and "can_play_card (card rq) (top_card gs)"
    and "recolor_fails rq"
  shows "play_card db gid rq = (db, Inl ValidationError)"
proof -
  from assms(5) have col: "color (hand (players gs ! i) ! idx) = color (card rq)"
    using card_in_hand_Some by blast
  have "play_card_state gs rq = Inl ValidationError"
    using assms(2-7) col unfolding play_card_state_def recolor_fails_def
    by (simp add: Let_def pop_at_def mk_card_def)
  then show ?thesis using assms(1) by (simp add: play_card_def)
qed

lemma play_card_state_illegal:
  "\<not> can_play_card (card rq) (top_card gs) \<Longrightarrow> \<exists>e. play_card_state gs rq = Inl e"
  unfolding play_card_state_def by (auto simp: Let_def split: sum.splits option.splits)

lemma create_deck_colored_value:
  "c \<in> set create_deck \<Longrightarrow> color c \<noteq> Wild \<Longrightarrow> value c \<noteq> ''wild'' \<and> value c \<noteq> ''wild4''"
  by (auto simp: create_deck_def number_cards_def action_cards_def digit_str_def)

lemma length_create_deck: "length create_deck = 108"
  by (simp add: create_deck_def number_cards_def action_cards_def colors_def length_concat
      upt_conv_Cons sum_list_replicate)

lemma play_card_state_recolor_fails:
  assumes "\<not> game_over gs"
    and "py_index (players gs) (current_player_index gs) = Inr i"
    and "pid (players gs ! i) = player_id rq"
    and "card_in_hand (hand (players gs ! i)) (card rq) = Some idx"
    and "can_play_card (card rq) (top_card gs)"
    and "recolor_fails rq"
  shows "play_card_state gs rq = Inl ValidationError"
proof -
  from assms(4) have col: "color (hand (players gs ! i) ! idx) = color (card rq)"
    using card_in_hand_Some by blast
  show ?thesis
    using assms col unfolding play_card_state_def recolor_fails_def
    by (simp add: Let_def pop_at_def mk_card_def)
qed

lemma play_card_state_accepted:
  assumes "play_card_state gs rq = Inr (gs', a)"
    and "py_index (players gs) (current_player_index gs) = Inr i"
  shows "\<not> game_over gs \<and> pid (players gs ! i) = player_id rq \<and>
         (\<exists>idx. card_in_hand (hand (players gs ! i)) (card rq) = Some idx) \<and>
         can_play_card (card rq) (top_card gs) \<and> \<not> recolor_fails rq"
proof -
  have g: "\<not> game_over gs"
    using assms(1) by (auto simp: play_card_state_def)
  have p: "pid (players gs ! i) = player_id rq"
    using assms g by (auto simp: play_card_state_def Let_def split: if_splits)
  obtain idx where c: "card_in_hand (hand (players gs ! i)) (card rq) = Some idx"
    using assms g p by (cases "card_in_hand (hand (players gs ! i)) (card rq)")
      (auto simp: play_card_state_def Let_def)
  have l: "can_play_card (card rq) (top_card gs)"
    using assms g p c by (auto simp: play_card_state_def Let_def split: if_splits)
  have r: "\<not> recolor_fails rq"
  proof
    assume "recolor_fails rq"
    with g assms(2) p c l have "play_card_state gs rq = Inl ValidationError"
      by (rule play_card_state_recolor_fails)
    with assms(1) show False by simp
  qed
  from g p c l r show ?thesis by blast
qed

lemmas ex_defs = ex_games_def ex_game_def ex_alice_def ex_bob_def ex_carol_def

section \<open>Card legality\<close>

text \<open>
  Claim C5. A card is playable on the top card exactly when its colour is wild, or its
  colour is the top card's colour, or its value is the top card's value. The relation
  is not symmetric: a wild card is playable on a red 5, a red 5 is not playable on a
  wild card.
\<close>

theorem can_play_card_iff:
  "can_play_card c t = (color c = Wild \<or> color c = color t \<or> value c = value t) \<and>
   can_play_card \<lparr>color = Wild, value = ''wild''\<rparr> \<lparr>color = Red, value = ''5''\<rparr> \<and>
   \<not> can_play_card \<lparr>color = Red, value = ''5''\<rparr> \<lparr>color = Wild, value = ''wild''\<rparr>"
  by (simp add: can_play_card_def)

section \<open>Playing a card\<close>

text \<open>
  Claim C1, as the code has it. A legal play by the acting player that goes through
  (the recolouring of a wild card does not fail) and leaves at least one card in the
  hand is stored and answered with the new state; a reverse flips the direction first,
  every other card leaves it; and the turn moves by \<open>next_player_change\<close> seats
  (2 for skip, draw2 and wild4, else 1) in the new direction, as the non-negative
  remainder modulo the number of players: the new index is a valid index.
\<close>

theorem play_card_turn_advance:
  assumes "db gid = Some gs"
    and "\<not> game_over gs"
    and "py_index (players gs) (current_player_index gs) = Inr i"
    and "pid (players gs ! i) = player_id rq"
    and "card_in_hand (hand (players gs ! i)) (card rq) = Some idx"
    and "can_play_card (card rq) (top_card gs)"
    and "\<not> recolor_fails rq"
    and "length (hand (players gs ! i)) \<noteq> 1"
  shows "\<exists>gs' action.
           play_card db gid rq = (db(gid \<mapsto> gs'), Inr (gs', action)) \<and>
           direction gs' = (if value (card rq) = ''reverse'' then - direction gs else direction gs) \<and>
           current_player_index gs' =
             (current_player_index gs + next_player_change (card rq) * direction gs')
               mod int (length (players gs)) \<and>
           0 \<le> current_player_index gs' \<and>
           current_player_index gs' < int (length (players gs))"
proof -
  have "i < length (players gs)"
    using assms(3) by (rule py_index_Inr)
  then have pos: "0 < int (length (players gs))" by (cases "players gs") simp_all
  from play_card_legal [of db gid gs i rq idx, OF assms(1-7)] obtain gs' action where
    "play_card db gid rq = (db(gid \<mapsto> gs'), Inr (gs', action))"
    and "if length (hand (players gs ! i)) = 1 then
              action = Some ''win'' \<and> winner gs' = Some (name (players gs ! i)) \<and> game_over gs' \<and>
              direction gs' = direction gs \<and>
              current_player_index gs' = current_player_index gs
            else
              winner gs' = winner gs \<and> game_over gs' = game_over gs \<and>
              direction gs' = (if value (card rq) = ''reverse'' then - direction gs else direction gs) \<and>
              current_player_index gs' =
                (current_player_index gs + next_player_change (card rq) * direction gs')
                  mod int (length (players gs))"
    by blast
  with assms(8) pos_mod_sign [OF pos] pos_mod_bound [OF pos] show ?thesis by auto
qed


text \<open>Alice plays her red skip on the red 5 in a game of three: the turn goes to index 2.\<close>

theorem play_card_turn_advance_witness:
  "\<exists>gs' action.
     play_card (ex_games 0) ''g1''
       \<lparr>player_id = ''p1'', card = \<lparr>color = Red, value = ''skip''\<rparr>, chosen_color = None\<rparr> =
       ((ex_games 0)(''g1'' \<mapsto> gs'), Inr (gs', action)) \<and>
     direction gs' = 1 \<and> current_player_index gs' = 2"
  using play_card_turn_advance [of "ex_games 0" "''g1''" "ex_game 0" 0
      "\<lparr>player_id = ''p1'', card = \<lparr>color = Red, value = ''skip''\<rparr>, chosen_color = None\<rparr>" 0]
  by (auto simp: ex_defs py_index_def can_play_card_def recolor_fails_def next_player_change_def)


text \<open>
  The claim as worded covers every legal play. A play of the last card is legal, and
  the turn stays where it is: Bob plays his only card, a wild4, at index 1 of three;
  the claim puts the turn at \<open>(1 + 2 * 1) mod 3 = 0\<close>, the handler leaves it at 1.
\<close>

theorem play_card_turn_advance_counterexample:
  "\<not> game_over (ex_game 1) \<and>
   py_index (players (ex_game 1)) (current_player_index (ex_game 1)) = Inr 1 \<and>
   pid (players (ex_game 1) ! 1) = ''p2'' \<and>
   card_in_hand (hand (players (ex_game 1) ! 1)) \<lparr>color = Wild, value = ''wild4''\<rparr> = Some 0 \<and>
   can_play_card \<lparr>color = Wild, value = ''wild4''\<rparr> (top_card (ex_game 1)) \<and>
   (\<exists>gs'. play_card (ex_games 1) ''g1''
            \<lparr>player_id = ''p2'', card = \<lparr>color = Wild, value = ''wild4''\<rparr>,
             chosen_color = Some ''blue''\<rparr> =
            ((ex_games 1)(''g1'' \<mapsto> gs'), Inr (gs', Some ''win'')) \<and>
          current_player_index gs' = 1 \<and>
          (current_player_index (ex_game 1) +
             next_player_change \<lparr>color = Wild, value = ''wild4''\<rparr> * direction gs')
            mod int (length (players (ex_game 1))) = 0)"
  by (simp add: ex_defs py_index_def can_play_card_def next_player_change_def
      play_card_def play_card_state_def pop_at_def mk_card_def parse_color_def Let_def)

text \<open>
  Claim C2. For the acting player (the one at \<^verbatim>\<open>current_player_index\<close>): every
  play that is accepted and leaves that player's hand empty is stored and answered with
  the tag \<open>win\<close>, with the winner set to the player's name, the game over, and the
  turn and the direction as before the play, whatever the card (no skip, reverse,
  draw2 or wild4 effect). And such plays exist: a legal play of the player's only
  card whose recolouring does not fail is accepted and leaves the hand empty.
\<close>

theorem play_card_win:
  assumes "db gid = Some gs"
    and "py_index (players gs) (current_player_index gs) = Inr i"
  shows "(\<forall>db' gs' action.
            play_card db gid rq = (db', Inr (gs', action)) \<and> hand (players gs' ! i) = [] \<longrightarrow>
              db' = db(gid \<mapsto> gs') \<and> action = Some ''win'' \<and>
              winner gs' = Some (name (players gs ! i)) \<and> game_over gs' \<and>
              current_player_index gs' = current_player_index gs \<and>
              direction gs' = direction gs) \<and>
         (\<not> game_over gs \<and> pid (players gs ! i) = player_id rq \<and>
          card_in_hand (hand (players gs ! i)) (card rq) \<noteq> None \<and>
          can_play_card (card rq) (top_card gs) \<and> \<not> recolor_fails rq \<and>
          length (hand (players gs ! i)) = 1 \<longrightarrow>
            (\<exists>gs'. play_card db gid rq = (db(gid \<mapsto> gs'), Inr (gs', Some ''win'')) \<and>
                   hand (players gs' ! i) = []))"
    (is "?accepted \<and> ?legal")
proof -
  have i: "i < length (players gs)"
    using assms(2) by (rule py_index_Inr)
  have main: "\<exists>gs' action.
      play_card db gid rq = (db(gid \<mapsto> gs'), Inr (gs', action)) \<and>
      length (hand (players gs' ! i)) = length (hand (players gs ! i)) - 1 \<and>
      (if length (hand (players gs ! i)) = 1 then
         action = Some ''win'' \<and> winner gs' = Some (name (players gs ! i)) \<and> game_over gs' \<and>
         direction gs' = direction gs \<and> current_player_index gs' = current_player_index gs
       else True)"
    if pre: "\<not> game_over gs" "pid (players gs ! i) = player_id rq"
      "card_in_hand (hand (players gs ! i)) (card rq) = Some idx"
      "can_play_card (card rq) (top_card gs)" "\<not> recolor_fails rq" for idx
  proof -
    from play_card_legal [of db gid gs i rq idx, OF assms(1) pre(1) assms(2) pre(2-5)]
    obtain gs' action where
      r: "play_card db gid rq = (db(gid \<mapsto> gs'), Inr (gs', action))"
      and p: "players gs' =
               (players gs)[i := (players gs ! i)
                  \<lparr>hand := snd (pop_at (hand (players gs ! i)) idx),
                   card_count := int (length (snd (pop_at (hand (players gs ! i)) idx)))\<rparr>]"
      and l: "length (snd (pop_at (hand (players gs ! i)) idx)) = length (hand (players gs ! i)) - 1"
      and w: "if length (hand (players gs ! i)) = 1 then
                action = Some ''win'' \<and> winner gs' = Some (name (players gs ! i)) \<and> game_over gs' \<and>
                direction gs' = direction gs \<and>
                current_player_index gs' = current_player_index gs
              else
                winner gs' = winner gs \<and> game_over gs' = game_over gs \<and>
                direction gs' = (if value (card rq) = ''reverse'' then - direction gs else direction gs) \<and>
                current_player_index gs' =
                  (current_player_index gs + next_player_change (card rq) * direction gs')
                    mod int (length (players gs))"
      by blast
    have "length (hand (players gs' ! i)) = length (hand (players gs ! i)) - 1"
      using p l i by simp
    with r w show ?thesis by (cases "length (hand (players gs ! i)) = 1") auto
  qed
  have 1: ?accepted
  proof (intro allI impI)
    fix db' gs' action
    assume a: "play_card db gid rq = (db', Inr (gs', action)) \<and> hand (players gs' ! i) = []"
    then have st: "play_card_state gs rq = Inr (gs', action)"
      using assms(1) by (auto simp: play_card_def split: sum.splits)
    from play_card_state_accepted [OF st assms(2)] obtain idx where
      pre: "\<not> game_over gs" "pid (players gs ! i) = player_id rq"
      "card_in_hand (hand (players gs ! i)) (card rq) = Some idx"
      "can_play_card (card rq) (top_card gs)" "\<not> recolor_fails rq"
      by blast
    have "idx < length (hand (players gs ! i))"
      using pre(3) card_in_hand_Some by blast
    with main [OF pre] a
    show "db' = db(gid \<mapsto> gs') \<and> action = Some ''win'' \<and>
          winner gs' = Some (name (players gs ! i)) \<and> game_over gs' \<and>
          current_player_index gs' = current_player_index gs \<and>
          direction gs' = direction gs"
      by (cases "length (hand (players gs ! i)) = 1") auto
  qed
  have 2: ?legal
  proof (rule impI)
    assume b: "\<not> game_over gs \<and> pid (players gs ! i) = player_id rq \<and>
          card_in_hand (hand (players gs ! i)) (card rq) \<noteq> None \<and>
          can_play_card (card rq) (top_card gs) \<and> \<not> recolor_fails rq \<and>
          length (hand (players gs ! i)) = 1"
    then obtain idx where "card_in_hand (hand (players gs ! i)) (card rq) = Some idx"
      by blast
    with b main [of idx]
    show "\<exists>gs'. play_card db gid rq = (db(gid \<mapsto> gs'), Inr (gs', Some ''win'')) \<and>
                   hand (players gs' ! i) = []"
      by auto
  qed
  from 1 2 show ?thesis ..
qed

text \<open>Bob plays his only card, a wild4 recoloured blue, and wins with the turn still at 1.\<close>

theorem play_card_win_witness:
  "\<exists>gs'. play_card (ex_games 1) ''g1''
            \<lparr>player_id = ''p2'', card = \<lparr>color = Wild, value = ''wild4''\<rparr>,
             chosen_color = Some ''blue''\<rparr> =
            ((ex_games 1)(''g1'' \<mapsto> gs'), Inr (gs', Some ''win'')) \<and>
          hand (players gs' ! 1) = [] \<and> winner gs' = Some ''Bob'' \<and> game_over gs' \<and>
          current_player_index gs' = 1 \<and> direction gs' = 1"
proof -
  let ?rq = "\<lparr>player_id = ''p2'', card = \<lparr>color = Wild, value = ''wild4''\<rparr>,
              chosen_color = Some ''blue''\<rparr>"
  note t = play_card_win [of "ex_games 1" "''g1''" "ex_game 1" 1 ?rq]
  have h: "ex_games 1 ''g1'' = Some (ex_game 1)"
    "py_index (players (ex_game 1)) (current_player_index (ex_game 1)) = Inr 1"
    by (simp_all add: ex_defs py_index_def)
  from t [OF h, THEN conjunct2] obtain gs' where
    r: "play_card (ex_games 1) ''g1'' ?rq = ((ex_games 1)(''g1'' \<mapsto> gs'), Inr (gs', Some ''win''))"
    and e: "hand (players gs' ! 1) = []"
    by (auto simp: ex_defs can_play_card_def recolor_fails_def parse_color_def)
  from t [OF h, THEN conjunct1] r e
  have "winner gs' = Some (name (players (ex_game 1) ! 1)) \<and> game_over gs' \<and>
        current_player_index gs' = current_player_index (ex_game 1) \<and>
        direction gs' = direction (ex_game 1)"
    by blast
  with r e show ?thesis by (auto simp: ex_defs)
qed

section \<open>Wild cards\<close>



text \<open>
  A \<^verbatim>\<open>chosen_color\<close> that is no colour literal is no colour of a
  \<^verbatim>\<open>Card\<close>: \<^verbatim>\<open>Card(color="purple", ...)\<close> fails its validation, the handler
  stops there and nothing is stored.
\<close>

lemma play_card_chosen_color_invalid:
  "play_card (ex_games 1) ''g1''
     \<lparr>player_id = ''p2'', card = \<lparr>color = Wild, value = ''wild4''\<rparr>,
      chosen_color = Some ''purple''\<rparr> =
     (ex_games 1, Inl ValidationError)"
  by (simp add: ex_defs py_index_def can_play_card_def
      play_card_def play_card_state_def pop_at_def mk_card_def parse_color_def Let_def)

text \<open>
  Claim C10. When the acting player plays a wild or a wild4 with no
  \<^verbatim>\<open>chosen_color\<close>, the play is accepted and the top card's colour is wild; no
  card of the 108-card deck whose colour is not wild is playable on that top card, and
  a request to play such a card on the stored state is rejected with the state unchanged.
\<close>

theorem play_card_wild_no_color:
  assumes "db gid = Some gs"
    and "\<not> game_over gs"
    and "py_index (players gs) (current_player_index gs) = Inr i"
    and "pid (players gs ! i) = player_id rq"
    and "card_in_hand (hand (players gs ! i)) (card rq) = Some idx"
    and "color (card rq) = Wild"
    and "value (card rq) = ''wild'' \<or> value (card rq) = ''wild4''"
    and "\<not> truthy (chosen_color rq)"
  shows "\<exists>gs' action.
           play_card db gid rq = (db(gid \<mapsto> gs'), Inr (gs', action)) \<and>
           color (top_card gs') = Wild \<and>
           (\<forall>c\<in>set create_deck. color c \<noteq> Wild \<longrightarrow> \<not> can_play_card c (top_card gs')) \<and>
           (\<forall>rq'. card rq' \<in> set create_deck \<and> color (card rq') \<noteq> Wild \<longrightarrow>
              (\<exists>e. play_card (db(gid \<mapsto> gs')) gid rq' = (db(gid \<mapsto> gs'), Inl e)))"
proof -
  have legal: "can_play_card (card rq) (top_card gs)"
    using assms(6) by (rule wild_can_play)
  have nf: "\<not> recolor_fails rq"
    using assms(8) by (simp add: recolor_fails_def)
  from play_card_legal [of db gid gs i rq idx, OF assms(1-5) legal nf] obtain gs' action where
    r: "play_card db gid rq = (db(gid \<mapsto> gs'), Inr (gs', action))"
    and v: "value (top_card gs') = value (card rq)"
    and c: "color (top_card gs') =
             (if color (card rq) = Wild \<and> truthy (chosen_color rq)
              then the (parse_color (the (chosen_color rq))) else color (card rq))"
    by blast
  have col: "color (top_card gs') = Wild"
    using c assms(6,8) by simp
  have no: "\<not> can_play_card d (top_card gs')" if "d \<in> set create_deck" "color d \<noteq> Wild" for d
    using create_deck_colored_value [OF that] that(2) col v assms(7)
    by (auto simp: can_play_card_def)
  have rej: "\<exists>e. play_card (db(gid \<mapsto> gs')) gid rq' = (db(gid \<mapsto> gs'), Inl e)"
    if "card rq' \<in> set create_deck \<and> color (card rq') \<noteq> Wild" for rq'
  proof -
    from that have "\<not> can_play_card (card rq') (top_card gs')" using no by blast
    from play_card_state_illegal [OF this] obtain e where "play_card_state gs' rq' = Inl e" ..
    then show ?thesis by (simp add: play_card_def)
  qed
  from r col no rej show ?thesis by blast
qed

text \<open>Carol plays her wild with no colour; a red 5 is then not playable.\<close>

theorem play_card_wild_no_color_witness:
  "\<exists>gs' action.
     play_card (ex_games 2) ''g1''
       \<lparr>player_id = ''p3'', card = \<lparr>color = Wild, value = ''wild''\<rparr>, chosen_color = None\<rparr> =
       ((ex_games 2)(''g1'' \<mapsto> gs'), Inr (gs', action)) \<and>
     color (top_card gs') = Wild \<and>
     \<not> can_play_card \<lparr>color = Red, value = ''5''\<rparr> (top_card gs')"
proof -
  have m: "\<lparr>color = Red, value = ''5''\<rparr> \<in> set create_deck"
    by (simp add: create_deck_def number_cards_def colors_def digit_str_def upt_conv_Cons)
  from play_card_wild_no_color [of "ex_games 2" "''g1''" "ex_game 2" 2
      "\<lparr>player_id = ''p3'', card = \<lparr>color = Wild, value = ''wild''\<rparr>, chosen_color = None\<rparr>" 1]
  obtain gs' action where
    "play_card (ex_games 2) ''g1''
       \<lparr>player_id = ''p3'', card = \<lparr>color = Wild, value = ''wild''\<rparr>, chosen_color = None\<rparr> =
       ((ex_games 2)(''g1'' \<mapsto> gs'), Inr (gs', action))"
    "color (top_card gs') = Wild"
    "\<forall>c\<in>set create_deck. color c \<noteq> Wild \<longrightarrow> \<not> can_play_card c (top_card gs')"
    by (auto simp: ex_defs py_index_def)
  with m show ?thesis by fastforce
qed

section \<open>Rejections\<close>

lemma play_card_Inl: "snd (play_card db gid rq) = Inl e \<Longrightarrow> fst (play_card db gid rq) = db"
  by (auto simp: play_card_def split: option.splits sum.splits)

lemma draw_card_Inl: "snd (draw_card rnd db gid p) = Inl e \<Longrightarrow> fst (draw_card rnd db gid p) = db"
  by (auto simp: draw_card_def split: option.splits sum.splits)

text \<open>
  Claim C4. A call of \<^verbatim>\<open>play_card\<close> or \<^verbatim>\<open>draw_card\<close> that ends in an error
  leaves the stored games as they were. The checks come in the order of the source and
  the first failure decides: a finished game is rejected with GameOver whatever the
  player and the card; then a player who is not the one at
  \<^verbatim>\<open>current_player_index\<close> with NotYourTurn whatever the card; then a card that is
  not in the hand with CardNotInHand whether or not it would be playable; then a card
  in the hand that is not playable with IllegalPlay.
\<close>

theorem rejection_keeps_state:
  "(snd (play_card db gid rq) = Inl e \<longrightarrow> fst (play_card db gid rq) = db) \<and>
   (snd (draw_card rnd db gid p) = Inl e \<longrightarrow> fst (draw_card rnd db gid p) = db) \<and>
   (db gid = Some gs \<and> game_over gs \<longrightarrow>
      play_card db gid rq = (db, Inl GameOver) \<and> draw_card rnd db gid p = (db, Inl GameOver)) \<and>
   (db gid = Some gs \<and> \<not> game_over gs \<and>
    py_index (players gs) (current_player_index gs) = Inr i \<longrightarrow>
      (pid (players gs ! i) \<noteq> p \<longrightarrow> draw_card rnd db gid p = (db, Inl NotYourTurn)) \<and>
      (pid (players gs ! i) \<noteq> player_id rq \<longrightarrow> play_card db gid rq = (db, Inl NotYourTurn)) \<and>
      (pid (players gs ! i) = player_id rq \<and>
       card_in_hand (hand (players gs ! i)) (card rq) = None \<longrightarrow>
         play_card db gid rq = (db, Inl CardNotInHand)) \<and>
      (pid (players gs ! i) = player_id rq \<and>
       card_in_hand (hand (players gs ! i)) (card rq) \<noteq> None \<and>
       \<not> can_play_card (card rq) (top_card gs) \<longrightarrow>
         play_card db gid rq = (db, Inl IllegalPlay)))"
proof (intro conjI impI)
  show "fst (play_card db gid rq) = db" if "snd (play_card db gid rq) = Inl e"
    using that by (rule play_card_Inl)
  show "fst (draw_card rnd db gid p) = db" if "snd (draw_card rnd db gid p) = Inl e"
    using that by (rule draw_card_Inl)
  show "play_card db gid rq = (db, Inl GameOver)" if "db gid = Some gs \<and> game_over gs"
    using that by (simp add: play_card_def play_card_state_def)
  show "draw_card rnd db gid p = (db, Inl GameOver)" if "db gid = Some gs \<and> game_over gs"
    using that by (simp add: draw_card_def draw_card_state_def)
  show "draw_card rnd db gid p = (db, Inl NotYourTurn)"
    if "db gid = Some gs \<and> \<not> game_over gs \<and>
        py_index (players gs) (current_player_index gs) = Inr i"
      and "pid (players gs ! i) \<noteq> p"
    using that by (simp add: draw_card_def draw_card_state_def)
  show "play_card db gid rq = (db, Inl NotYourTurn)"
    if "db gid = Some gs \<and> \<not> game_over gs \<and>
        py_index (players gs) (current_player_index gs) = Inr i"
      and "pid (players gs ! i) \<noteq> player_id rq"
    using that by (simp add: play_card_def play_card_state_def)
  show "play_card db gid rq = (db, Inl CardNotInHand)"
    if "db gid = Some gs \<and> \<not> game_over gs \<and>
        py_index (players gs) (current_player_index gs) = Inr i"
      and "pid (players gs ! i) = player_id rq \<and>
           card_in_hand (hand (players gs ! i)) (card rq) = None"
    using that by (simp add: play_card_def play_card_state_def)
  show "play_card db gid rq = (db, Inl IllegalPlay)"
    if "db gid = Some gs \<and> \<not> game_over gs \<and>
        py_index (players gs) (current_player_index gs) = Inr i"
      and "pid (players gs ! i) = player_id rq \<and>
           card_in_hand (hand (players gs ! i)) (card rq) \<noteq> None \<and>
           \<not> can_play_card (card rq) (top_card gs)"
    using that by (auto simp: play_card_def play_card_state_def)
qed

text \<open>
  On the finished game every request is rejected with GameOver; in the running game
  Bob is told it is not his turn, and Alice that a green 9 is not in her hand and that
  her blue 7 is not playable on the red 5. The stored games are unchanged each time.
\<close>

theorem rejection_keeps_state_witness:
  "play_card [''g1'' \<mapsto> ex_over] ''g1''
     \<lparr>player_id = ''p2'', card = \<lparr>color = Green, value = ''9''\<rparr>, chosen_color = None\<rparr> =
     ([''g1'' \<mapsto> ex_over], Inl GameOver) \<and>
   draw_card ex_random [''g1'' \<mapsto> ex_over] ''g1'' ''p2'' = ([''g1'' \<mapsto> ex_over], Inl GameOver) \<and>
   play_card (ex_games 0) ''g1''
     \<lparr>player_id = ''p2'', card = \<lparr>color = Green, value = ''9''\<rparr>, chosen_color = None\<rparr> =
     (ex_games 0, Inl NotYourTurn) \<and>
   draw_card ex_random (ex_games 0) ''g1'' ''p2'' = (ex_games 0, Inl NotYourTurn) \<and>
   play_card (ex_games 0) ''g1''
     \<lparr>player_id = ''p1'', card = \<lparr>color = Green, value = ''9''\<rparr>, chosen_color = None\<rparr> =
     (ex_games 0, Inl CardNotInHand) \<and>
   play_card (ex_games 0) ''g1''
     \<lparr>player_id = ''p1'', card = \<lparr>color = Blue, value = ''7''\<rparr>, chosen_color = None\<rparr> =
     (ex_games 0, Inl IllegalPlay)"
proof -
  let ?g9 = "\<lparr>color = Green, value = ''9''\<rparr>"
  have over: "play_card [''g1'' \<mapsto> ex_over] ''g1'' \<lparr>player_id = ''p2'', card = ?g9, chosen_color = None\<rparr> =
      ([''g1'' \<mapsto> ex_over], Inl GameOver) \<and>
    draw_card ex_random [''g1'' \<mapsto> ex_over] ''g1'' ''p2'' = ([''g1'' \<mapsto> ex_over], Inl GameOver)"
    using rejection_keeps_state [of "[''g1'' \<mapsto> ex_over]" "''g1''"
        "\<lparr>player_id = ''p2'', card = ?g9, chosen_color = None\<rparr>" _ ex_random "''p2''" ex_over]
    by (simp add: ex_over_def)
  have turn: "play_card (ex_games 0) ''g1'' \<lparr>player_id = ''p2'', card = ?g9, chosen_color = None\<rparr> =
      (ex_games 0, Inl NotYourTurn) \<and>
    draw_card ex_random (ex_games 0) ''g1'' ''p2'' = (ex_games 0, Inl NotYourTurn)"
    using rejection_keeps_state [of "ex_games 0" "''g1''"
        "\<lparr>player_id = ''p2'', card = ?g9, chosen_color = None\<rparr>" _ ex_random "''p2''" "ex_game 0" 0]
    by (simp add: ex_defs py_index_def)
  have hand: "play_card (ex_games 0) ''g1'' \<lparr>player_id = ''p1'', card = ?g9, chosen_color = None\<rparr> =
      (ex_games 0, Inl CardNotInHand)"
    using rejection_keeps_state [of "ex_games 0" "''g1''"
        "\<lparr>player_id = ''p1'', card = ?g9, chosen_color = None\<rparr>" _ ex_random "''p2''" "ex_game 0" 0]
    by (simp add: ex_defs py_index_def)
  have illegal: "play_card (ex_games 0) ''g1''
       \<lparr>player_id = ''p1'', card = \<lparr>color = Blue, value = ''7''\<rparr>, chosen_color = None\<rparr> =
      (ex_games 0, Inl IllegalPlay)"
    using rejection_keeps_state [of "ex_games 0" "''g1''"
        "\<lparr>player_id = ''p1'', card = \<lparr>color = Blue, value = ''7''\<rparr>, chosen_color = None\<rparr>"
        _ ex_random "''p2''" "ex_game 0" 0]
    by (simp add: ex_defs py_index_def can_play_card_def)
  from over turn hand illegal show ?thesis by blast
qed

section \<open>Drawing a card\<close>

text \<open>
  Claim C8. When the game is not over and the request comes from the player at
  \<^verbatim>\<open>current_player_index\<close>, \<^verbatim>\<open>draw_card\<close> stores and returns a state in which
  that player's hand is the old hand with the one new card at its end,
  \<^verbatim>\<open>card_count\<close> is the length of the new hand, \<^verbatim>\<open>draw_pile_count\<close> is the
  old count less one and never below 0, and the turn is unchanged when the new card is
  playable on the top card and is moved by \<^verbatim>\<open>direction\<close>, modulo the number of
  players, when it is not.
\<close>

theorem draw_card_effect:
  assumes "db gid = Some gs"
    and "\<not> game_over gs"
    and "py_index (players gs) (current_player_index gs) = Inr i"
    and "pid (players gs ! i) = p"
  shows "\<exists>gs'.
     draw_card rnd db gid p =
       (db(gid \<mapsto> gs'), Inr (gs', new_card rnd, can_play_card (new_card rnd) (top_card gs))) \<and>
     players gs' = (players gs)[i := (players gs ! i)
        \<lparr>hand := hand (players gs ! i) @ [new_card rnd],
         card_count := int (length (hand (players gs ! i) @ [new_card rnd]))\<rparr>] \<and>
     hand (players gs' ! i) = hand (players gs ! i) @ [new_card rnd] \<and>
     card_count (players gs' ! i) = int (length (hand (players gs' ! i))) \<and>
     draw_pile_count gs' = max 0 (draw_pile_count gs - 1) \<and>
     0 \<le> draw_pile_count gs' \<and>
     top_card gs' = top_card gs \<and> direction gs' = direction gs \<and>
     current_player_index gs' =
       (if can_play_card (new_card rnd) (top_card gs) then current_player_index gs
        else (current_player_index gs + direction gs) mod int (length (players gs)))"
proof -
  have i: "i < length (players gs)"
    using assms(3) by (rule py_index_Inr)
  show ?thesis
    using assms i by (simp add: draw_card_def draw_card_state_def Let_def)
qed

lemma new_card_ex: "new_card ex_random = \<lparr>color = Blue, value = ''3''\<rparr>"
  by (simp add: new_card_def ex_random_def choice_def colors_def draw_values_def digit_str_def
      upt_conv_Cons)

text \<open>Alice draws a blue 3 on the red 5: it is not playable, and the turn goes to Bob.\<close>

theorem draw_card_effect_witness:
  "\<exists>gs'. draw_card ex_random (ex_games 0) ''g1'' ''p1'' =
      ((ex_games 0)(''g1'' \<mapsto> gs'), Inr (gs', \<lparr>color = Blue, value = ''3''\<rparr>, False)) \<and>
     hand (players gs' ! 0) =
       [\<lparr>color = Red, value = ''skip''\<rparr>, \<lparr>color = Blue, value = ''7''\<rparr>,
        \<lparr>color = Blue, value = ''3''\<rparr>] \<and>
     card_count (players gs' ! 0) = 3 \<and> draw_pile_count gs' = 85 \<and>
     current_player_index gs' = 1"
  using draw_card_effect [of "ex_games 0" "''g1''" "ex_game 0" 0 "''p1''" ex_random]
  by (auto simp: new_card_ex ex_defs py_index_def can_play_card_def)

section \<open>After the end of the game\<close>

text \<open>
  Claim C3 at a finished game where Bob holds one card: \<^verbatim>\<open>call_uno\<close> has no
  check of \<^verbatim>\<open>game_over\<close>, accepts Bob's call and stores a new
  \<^verbatim>\<open>last_action\<close>. (\<^verbatim>\<open>play_card\<close> and \<^verbatim>\<open>draw_card\<close> reject every request on a
  finished game, by the rejections above.)
\<close>

theorem call_uno_after_game_over:
  "game_over ex_over \<and>
   call_uno [''g1'' \<mapsto> ex_over] ''g1'' ''p2'' =
     ([''g1'' \<mapsto> ex_over\<lparr>last_action := Some ''Bob called UNO!''\<rparr>], Inr ''UNO!'') \<and>
   last_action ex_over = Some ''Alice wins!''"
  by (simp add: call_uno_def call_uno_state_def ex_over_def ex_defs)

section \<open>Creating a game\<close>

lemma is_shuffle_nonempty: "is_shuffle sh \<Longrightarrow> sh k (c # deck) \<noteq> []"
proof
  assume s: "is_shuffle sh" and e: "sh k (c # deck) = []"
  from s have "mset (sh k (c # deck)) = mset (c # deck)"
    by (simp add: is_shuffle_def)
  with e show False by simp
qed

lemma is_shuffle_length: "is_shuffle sh \<Longrightarrow> length (sh k xs) = length xs"
  by (metis is_shuffle_def size_mset)

lemma initial_top_card_step:
  assumes "is_shuffle sh" and "is_action_value (value cand)"
  shows "initial_top_card sh k deck cand =
           initial_top_card sh (Suc k) (butlast (sh k (cand # deck))) (last (sh k (cand # deck)))"
  using assms is_shuffle_nonempty [OF assms(1), of k cand deck]
  by (subst initial_top_card.simps) (simp add: pop_def Let_def)

lemma initial_top_card_plain:
  "\<not> is_action_value (value cand) \<Longrightarrow> initial_top_card sh k deck cand = Some (Inr (cand, deck))"
  by (subst initial_top_card.simps) simp

lemma mset_butlast_last: "xs \<noteq> [] \<Longrightarrow> mset (last xs # butlast xs) = mset xs"
  by (induction xs) auto

lemma initial_top_card_terminates:
  assumes "is_shuffle sh"
    and "\<not> is_action_value (value (snd (retries sh k j (deck, cand))))"
  shows "\<exists>top_c deck'. initial_top_card sh k deck cand = Some (Inr (top_c, deck')) \<and>
           \<not> is_action_value (value top_c) \<and> mset (top_c # deck') = mset (cand # deck)"
  using assms(2)
proof (induction j arbitrary: k deck cand)
  case 0
  then show ?case by (simp add: initial_top_card_plain)
next
  case (Suc j)
  show ?case
  proof (cases "is_action_value (value cand)")
    case False
    then show ?thesis by (simp add: initial_top_card_plain)
  next
    case True
    let ?d = "sh k (cand # deck)"
    have ne: "?d \<noteq> []" using assms(1) by (rule is_shuffle_nonempty)
    from Suc.prems have "\<not> is_action_value (value (snd (retries sh (Suc k) j (butlast ?d, last ?d))))"
      by (simp add: Let_def)
    from Suc.IH [OF this] obtain top_c deck' where
      r: "initial_top_card sh (Suc k) (butlast ?d) (last ?d) = Some (Inr (top_c, deck'))"
      and p: "\<not> is_action_value (value top_c)"
      and m: "mset (top_c # deck') = mset (last ?d # butlast ?d)"
      by blast
    have "mset (last ?d # butlast ?d) = mset (cand # deck)"
      using mset_butlast_last [OF ne] assms(1) by (simp add: is_shuffle_def)
    with r p m show ?thesis
      using initial_top_card_step [OF assms(1) True, of k deck] by simp
  qed
qed

lemma initial_top_card_result_aux:
  assumes "initial_top_card sh k deck cand = Some r"
  shows "is_shuffle sh \<longrightarrow>
     (\<exists>top_c deck'. r = Inr (top_c, deck') \<and> \<not> is_action_value (value top_c)) \<and>
     (\<exists>j. \<not> is_action_value (value (snd (retries sh k j (deck, cand)))))"
proof -
  let ?P = "\<lambda>sh k deck cand r. is_shuffle sh \<longrightarrow>
     (\<exists>top_c deck'. r = Inr (top_c, deck') \<and> \<not> is_action_value (value top_c)) \<and>
     (\<exists>j. \<not> is_action_value (value (snd (retries sh k j (deck, cand)))))"
  have "?P sh k deck cand r"
  proof (rule initial_top_card.raw_induct [where P = ?P, OF _ assms])
    fix f sh k deck cand r
    assume IH: "\<And>sh' k' deck' cand' r'. f sh' k' deck' cand' = Some r' \<Longrightarrow> ?P sh' k' deck' cand' r'"
      and eq: "(if is_action_value (value cand) then
                  (let deck1 = sh k (cand # deck) in
                   case pop deck1 of
                     Inl e \<Rightarrow> Some (Inl e)
                   | Inr (c, deck2) \<Rightarrow> f sh (Suc k) deck2 c)
                else Some (Inr (cand, deck))) = Some r"
    show "?P sh k deck cand r"
    proof
      assume s: "is_shuffle sh"
      show "(\<exists>top_c deck'. r = Inr (top_c, deck') \<and> \<not> is_action_value (value top_c)) \<and>
            (\<exists>j. \<not> is_action_value (value (snd (retries sh k j (deck, cand)))))"
      proof (cases "is_action_value (value cand)")
        case False
        with eq have "r = Inr (cand, deck)" by simp
        moreover have "\<not> is_action_value (value (snd (retries sh k 0 (deck, cand))))"
          using False by simp
        ultimately show ?thesis using False by blast
      next
        case True
        let ?d = "sh k (cand # deck)"
        have ne: "?d \<noteq> []" using s by (rule is_shuffle_nonempty)
        with True eq have "f sh (Suc k) (butlast ?d) (last ?d) = Some r"
          by (simp add: pop_def Let_def)
        from IH [OF this] s obtain j where
          a: "\<exists>top_c deck'. r = Inr (top_c, deck') \<and> \<not> is_action_value (value top_c)"
          and b: "\<not> is_action_value (value (snd (retries sh (Suc k) j (butlast ?d, last ?d))))"
          by blast
        from b have "\<not> is_action_value (value (snd (retries sh k (Suc j) (deck, cand))))"
          by (simp add: Let_def)
        with a show ?thesis by blast
      qed
    qed
  qed
  then show ?thesis .
qed

lemma initial_top_card_result:
  "initial_top_card sh k deck cand = Some r \<Longrightarrow> is_shuffle sh \<Longrightarrow>
     (\<exists>top_c deck'. r = Inr (top_c, deck') \<and> \<not> is_action_value (value top_c)) \<and>
     (\<exists>j. \<not> is_action_value (value (snd (retries sh k j (deck, cand)))))"
  using initial_top_card_result_aux by blast

lemma mset_rotate1: "mset (rotate1 xs) = mset xs"
  by (cases xs) simp_all

lemma stuck_shuffle_is_shuffle: "is_shuffle stuck_shuffle"
  by (simp add: is_shuffle_def stuck_shuffle_def mset_rotate1)

lemma initial_top_card_stuck:
  "is_action_value (value cand) \<Longrightarrow> initial_top_card stuck_shuffle k deck cand = None"
proof (rule ccontr)
  assume a: "is_action_value (value cand)" and "initial_top_card stuck_shuffle k deck cand \<noteq> None"
  then obtain r where "initial_top_card stuck_shuffle k deck cand = Some r" by blast
  then have "\<exists>j. \<not> is_action_value (value (snd (retries stuck_shuffle k j (deck, cand))))"
    using initial_top_card_result stuck_shuffle_is_shuffle by blast
  moreover have "retries stuck_shuffle k j (deck, cand) = (deck, cand)" for j
    by (induction j arbitrary: k) (simp_all add: stuck_shuffle_def Let_def)
  ultimately show False using a by simp
qed

lemma pop_n_rev:
  "n \<le> length deck \<Longrightarrow> pop_n n deck = Inr (take n (rev deck), rev (drop n (rev deck)))"
proof (induction n arbitrary: deck)
  case 0
  then show ?case by simp
next
  case (Suc n)
  then obtain xs x where d: "deck = xs @ [x]"
    by (cases deck rule: rev_cases) auto
  with Suc.prems have "n \<le> length xs" by simp
  from Suc.IH [OF this] d show ?case by (simp add: pop_def)
qed

lemma deal_rev:
  "7 * length names \<le> length deck \<Longrightarrow>
   \<exists>ps. deal uuid k names deck = Inr (ps, rev (drop (7 * length names) (rev deck))) \<and>
        map name ps = names \<and>
        map pid ps = map uuid [k..<k + length names] \<and>
        (\<forall>p\<in>set ps. length (hand p) = 7 \<and> card_count p = 7)"
proof (induction names arbitrary: k deck)
  case Nil
  then show ?case by simp
next
  case (Cons nm names)
  then have l7: "7 \<le> length deck" by simp
  let ?d1 = "rev (drop 7 (rev deck))"
  have p: "pop_n 7 deck = Inr (take 7 (rev deck), ?d1)"
    using pop_n_rev [OF l7] .
  have "7 * length names \<le> length ?d1"
    using Cons.prems by simp
  from Cons.IH [OF this, of "Suc k"] obtain ps where
    d: "deal uuid (Suc k) names ?d1 = Inr (ps, rev (drop (7 * length names) (rev ?d1)))"
    and n: "map name ps = names"
    and u: "map pid ps = map uuid [Suc k..<Suc k + length names]"
    and h: "\<forall>p\<in>set ps. length (hand p) = 7 \<and> card_count p = 7"
    by blast
  have r: "rev (drop (7 * length names) (rev ?d1)) = rev (drop (7 * length (nm # names)) (rev deck))"
    by (simp add: add.commute)
  have i: "[k..<k + length (nm # names)] = k # [Suc k..<Suc k + length names]"
    using upt_conv_Cons [of k "k + length (nm # names)"] by simp
  show ?case
    using p d n u h l7 unfolding r [symmetric] i by simp
qed

lemma rev_drop_rev: "rev (drop m (rev xs)) = take (length xs - m) xs"
  by (simp add: rev_drop)

lemma create_new_game_dealt:
  assumes "2 \<le> length names" and "length names \<le> 4" and "is_shuffle sh"
  shows "\<exists>ps. map name ps = names \<and>
           map pid ps = map uuid [0..<length names] \<and>
           (\<forall>p\<in>set ps. length (hand p) = 7 \<and> card_count p = 7) \<and>
           create_new_game sh uuid db names =
             (case initial_top_card sh 1 (fst (first_candidate sh (length names)))
                     (snd (first_candidate sh (length names))) of
                None \<Rightarrow> None
              | Some (Inl e) \<Rightarrow> Some (db, Inl e)
              | Some (Inr (top_c, deck3)) \<Rightarrow>
                  Some (db(uuid (length names) \<mapsto>
                          \<lparr>game_id = uuid (length names), players = ps, current_player_index = 0,
                           direction = 1, discard_pile = [top_c], top_card = top_c,
                           draw_pile_count = int (length deck3), winner = None,
                           game_over = False, last_action = Some ''Game started''\<rparr>),
                        Inr \<lparr>game_id = uuid (length names), players = ps, current_player_index = 0,
                           direction = 1, discard_pile = [top_c], top_card = top_c,
                           draw_pile_count = int (length deck3), winner = None,
                           game_over = False, last_action = Some ''Game started''\<rparr>))"
proof -
  let ?n = "length names"
  let ?d0 = "sh 0 create_deck"
  have l0: "length ?d0 = 108"
    using is_shuffle_length [OF assms(3)] length_create_deck by simp
  then have "7 * ?n \<le> length ?d0" using assms(2) by simp
  from deal_rev [OF this, of uuid 0] obtain ps where
    d: "deal uuid 0 names ?d0 = Inr (ps, rev (drop (7 * ?n) (rev ?d0)))"
    and n: "map name ps = names"
    and u: "map pid ps = map uuid [0..<?n]"
    and h: "\<forall>p\<in>set ps. length (hand p) = 7 \<and> card_count p = 7"
    by auto
  let ?d1 = "take (108 - 7 * ?n) ?d0"
  have d1: "rev (drop (7 * ?n) (rev ?d0)) = ?d1"
    using l0 by (simp add: rev_drop_rev)
  have l1: "length ?d1 = 108 - 7 * ?n" using l0 by simp
  then have ne: "?d1 \<noteq> []" using assms(2) by auto
  have s: "108 - 7 * ?n = Suc (107 - 7 * ?n)" using assms(2) by simp
  have b: "butlast ?d1 = take (107 - 7 * ?n) ?d0"
    using l0 assms(2) by (simp add: butlast_take)
  have la: "last ?d1 = ?d0 ! (107 - 7 * ?n)"
    using l0 assms(2) unfolding s by (simp add: take_Suc_conv_app_nth)
  have fc: "first_candidate sh ?n = (butlast ?d1, last ?d1)"
    unfolding b la by (simp add: first_candidate_def Let_def)
  have "create_new_game sh uuid db names =
             (case initial_top_card sh 1 (fst (first_candidate sh ?n)) (snd (first_candidate sh ?n)) of
                None \<Rightarrow> None
              | Some (Inl e) \<Rightarrow> Some (db, Inl e)
              | Some (Inr (top_c, deck3)) \<Rightarrow>
                  Some (db(uuid ?n \<mapsto>
                          \<lparr>game_id = uuid ?n, players = ps, current_player_index = 0,
                           direction = 1, discard_pile = [top_c], top_card = top_c,
                           draw_pile_count = int (length deck3), winner = None,
                           game_over = False, last_action = Some ''Game started''\<rparr>),
                        Inr \<lparr>game_id = uuid ?n, players = ps, current_player_index = 0,
                           direction = 1, discard_pile = [top_c], top_card = top_c,
                           draw_pile_count = int (length deck3), winner = None,
                           game_over = False, last_action = Some ''Game started''\<rparr>))"
    using assms(1,2) d ne unfolding create_new_game_def d1 fc
    by (simp add: pop_def Let_def split: option.splits sum.splits)
  with n u h show ?thesis by blast
qed

lemmas deck_defs = create_deck_def number_cards_def action_cards_def colors_def digit_str_def

lemma ex_shuffle_is_shuffle: "is_shuffle ex_shuffle"
  by (simp add: is_shuffle_def ex_shuffle_def)

lemma ex_uuid_inj: "inj ex_uuid"
proof (rule injI)
  fix a b assume "ex_uuid a = ex_uuid b"
  then have "length (ex_uuid a) = length (ex_uuid b)" by simp
  then show "a = b" by (simp add: ex_uuid_def)
qed

lemma ex_first_candidate: "value (snd (first_candidate ex_shuffle 2)) = ''7''"
  by code_simp

lemma stuck_first_candidate: "is_action_value (value (snd (first_candidate stuck_shuffle 2)))"
  by code_simp

lemma stuck_numbered: "\<lparr>color = Red, value = ''1''\<rparr> \<in> set (fst (first_candidate stuck_shuffle 2))"
  by code_simp

lemma stuck_first_candidate3: "is_action_value (value (snd (first_candidate stuck_shuffle 3)))"
  by code_simp

lemma create_new_game_result:
  assumes "2 \<le> length names" and "length names \<le> 4" and "is_shuffle sh"
  shows "(top_card_found sh (length names) \<longrightarrow>
           (\<exists>gs. create_new_game sh uuid db names = Some (db(game_id gs \<mapsto> gs), Inr gs) \<and>
              map name (players gs) = names \<and>
              (\<forall>p\<in>set (players gs). length (hand p) = 7 \<and> card_count p = 7) \<and>
              map pid (players gs) = map uuid [0..<length names] \<and>
              game_id gs = uuid (length names) \<and>
              current_player_index gs = 0 \<and> direction gs = 1 \<and>
              \<not> game_over gs \<and> winner gs = None \<and>
              discard_pile gs = [top_card gs] \<and>
              \<not> is_action_value (value (top_card gs)) \<and>
              draw_pile_count gs = 108 - 7 * int (length names) - 1)) \<and>
         (\<not> top_card_found sh (length names) \<longrightarrow> create_new_game sh uuid db names = None)"
proof -
  let ?n = "length names"
  obtain deck2 cand where fc: "first_candidate sh ?n = (deck2, cand)"
    by (cases "first_candidate sh ?n")
  have l2: "length deck2 = 107 - 7 * ?n"
  proof -
    have "length (sh 0 create_deck) = 108"
      using is_shuffle_length [OF assms(3)] length_create_deck by simp
    with fc show ?thesis by (auto simp: first_candidate_def Let_def)
  qed
  from create_new_game_dealt [OF assms, of uuid db] obtain ps where
    nm: "map name ps = names"
    and ids: "map pid ps = map uuid [0..<?n]"
    and hands: "\<forall>p\<in>set ps. length (hand p) = 7 \<and> card_count p = 7"
    and c: "create_new_game sh uuid db names =
             (case initial_top_card sh 1 (fst (first_candidate sh ?n)) (snd (first_candidate sh ?n)) of
                None \<Rightarrow> None
              | Some (Inl e) \<Rightarrow> Some (db, Inl e)
              | Some (Inr (top_c, deck3)) \<Rightarrow>
                  Some (db(uuid ?n \<mapsto>
                          \<lparr>game_id = uuid ?n, players = ps, current_player_index = 0,
                           direction = 1, discard_pile = [top_c], top_card = top_c,
                           draw_pile_count = int (length deck3), winner = None,
                           game_over = False, last_action = Some ''Game started''\<rparr>),
                        Inr \<lparr>game_id = uuid ?n, players = ps, current_player_index = 0,
                           direction = 1, discard_pile = [top_c], top_card = top_c,
                           draw_pile_count = int (length deck3), winner = None,
                           game_over = False, last_action = Some ''Game started''\<rparr>))"
    by blast
  have found: "\<exists>gs. create_new_game sh uuid db names = Some (db(game_id gs \<mapsto> gs), Inr gs) \<and>
              map name (players gs) = names \<and>
              (\<forall>p\<in>set (players gs). length (hand p) = 7 \<and> card_count p = 7) \<and>
              map pid (players gs) = map uuid [0..<length names] \<and>
              game_id gs = uuid (length names) \<and>
              current_player_index gs = 0 \<and> direction gs = 1 \<and>
              \<not> game_over gs \<and> winner gs = None \<and>
              discard_pile gs = [top_card gs] \<and>
              \<not> is_action_value (value (top_card gs)) \<and>
              draw_pile_count gs = 108 - 7 * int (length names) - 1"
    if f: "top_card_found sh ?n"
  proof -
    from f fc obtain j where
      "\<not> is_action_value (value (snd (retries sh 1 j (deck2, cand))))"
      by (auto simp: top_card_found_def)
    from initial_top_card_terminates [OF assms(3) this] obtain top_c deck3 where
      r: "initial_top_card sh 1 deck2 cand = Some (Inr (top_c, deck3))"
      and plain: "\<not> is_action_value (value top_c)"
      and m: "mset (top_c # deck3) = mset (cand # deck2)"
      by blast
    from m have "size (mset (top_c # deck3)) = size (mset (cand # deck2))" by simp
    then have l3: "length deck3 = 107 - 7 * ?n" using l2 by simp
    let ?gs = "\<lparr>game_id = uuid ?n, players = ps, current_player_index = 0,
                direction = 1, discard_pile = [top_c], top_card = top_c,
                draw_pile_count = int (length deck3), winner = None,
                game_over = False, last_action = Some ''Game started''\<rparr>"
    have res: "create_new_game sh uuid db names = Some (db(game_id ?gs \<mapsto> ?gs), Inr ?gs)"
      using c fc r by simp
    have cnt: "draw_pile_count ?gs = 108 - 7 * int ?n - 1"
      using l3 assms(2) by simp
    show ?thesis
      apply (rule exI [of _ ?gs])
      using res nm hands ids plain cnt by simp
  qed
  have none: "create_new_game sh uuid db names = None" if nf: "\<not> top_card_found sh ?n"
  proof -
    have "initial_top_card sh 1 deck2 cand = None"
    proof (rule ccontr)
      assume "initial_top_card sh 1 deck2 cand \<noteq> None"
      then obtain r where "initial_top_card sh 1 deck2 cand = Some r" by blast
      from initial_top_card_result [OF this assms(3)] nf fc show False
        by (auto simp: top_card_found_def)
    qed
    with c fc show ?thesis by simp
  qed
  from found none show ?thesis by blast
qed

text \<open>
  Claim C6, as the code has it. With fewer than 2 or more than 4 names
  \<^verbatim>\<open>create_new_game\<close> raises the error of the player count and stores nothing. With
  2 to 4 names and shuffles that rearrange their lists, it returns exactly when the
  top-card loop finds a top card; and whenever it returns, it has stored and returns a
  state with one player per name, in order, each with a hand of 7 cards and
  \<^verbatim>\<open>card_count = 7\<close>; the ids of the players and of the game are the ids drawn
  from \<^verbatim>\<open>uuid4\<close>, in that order, pairwise different when the ids drawn are;
  \<^verbatim>\<open>current_player_index\<close> is 0, \<^verbatim>\<open>direction\<close> is 1, the game is not over, the
  discard pile holds the top card only, the top card is not an action card, and
  \<^verbatim>\<open>draw_pile_count\<close> is \<open>108 - 7 * n - 1\<close>.
\<close>

theorem create_new_game_state:
  "(length names < 2 \<or> 4 < length names \<longrightarrow>
      create_new_game sh uuid db names = Some (db, Inl InvalidPlayerCount)) \<and>
   (2 \<le> length names \<and> length names \<le> 4 \<and> is_shuffle sh \<longrightarrow>
      ((\<exists>r. create_new_game sh uuid db names = Some r) = top_card_found sh (length names)) \<and>
      (\<forall>r. create_new_game sh uuid db names = Some r \<longrightarrow>
         (\<exists>gs. r = (db(game_id gs \<mapsto> gs), Inr gs) \<and>
            map name (players gs) = names \<and>
            (\<forall>p\<in>set (players gs). length (hand p) = 7 \<and> card_count p = 7) \<and>
            map pid (players gs) = map uuid [0..<length names] \<and>
            game_id gs = uuid (length names) \<and>
            (inj uuid \<longrightarrow> distinct (game_id gs # map pid (players gs))) \<and>
            current_player_index gs = 0 \<and> direction gs = 1 \<and>
            \<not> game_over gs \<and> winner gs = None \<and>
            discard_pile gs = [top_card gs] \<and>
            \<not> is_action_value (value (top_card gs)) \<and>
            draw_pile_count gs = 108 - 7 * int (length names) - 1)))"
  (is "?reject \<and> ?accept")
proof -
  have 1: ?reject
    by (auto simp: create_new_game_def)
  have 2: ?accept
  proof (rule impI)
    assume a: "2 \<le> length names \<and> length names \<le> 4 \<and> is_shuffle sh"
    then have n2: "2 \<le> length names" and n4: "length names \<le> 4" and sh: "is_shuffle sh"
      by simp_all
    note res = create_new_game_result [OF n2 n4 sh, of uuid db]
    have iff: "(\<exists>r. create_new_game sh uuid db names = Some r) = top_card_found sh (length names)"
      using res by (cases "top_card_found sh (length names)") auto
    have dist: "distinct (uuid (length names) # map uuid [0..<length names])" if "inj uuid"
    proof -
      have "distinct (map uuid [0..<Suc (length names)])"
        using that by (simp add: distinct_map inj_on_def inj_def del: upt_Suc)
      then show ?thesis by auto
    qed
    have all: "\<exists>gs. r = (db(game_id gs \<mapsto> gs), Inr gs) \<and>
            map name (players gs) = names \<and>
            (\<forall>p\<in>set (players gs). length (hand p) = 7 \<and> card_count p = 7) \<and>
            map pid (players gs) = map uuid [0..<length names] \<and>
            game_id gs = uuid (length names) \<and>
            (inj uuid \<longrightarrow> distinct (game_id gs # map pid (players gs))) \<and>
            current_player_index gs = 0 \<and> direction gs = 1 \<and>
            \<not> game_over gs \<and> winner gs = None \<and>
            discard_pile gs = [top_card gs] \<and>
            \<not> is_action_value (value (top_card gs)) \<and>
            draw_pile_count gs = 108 - 7 * int (length names) - 1"
      if r: "create_new_game sh uuid db names = Some r" for r
    proof -
      from r iff have "top_card_found sh (length names)" by blast
      with res obtain gs where
        g: "create_new_game sh uuid db names = Some (db(game_id gs \<mapsto> gs), Inr gs)"
        and p: "map name (players gs) = names"
          "\<forall>p\<in>set (players gs). length (hand p) = 7 \<and> card_count p = 7"
          "map pid (players gs) = map uuid [0..<length names]"
          "game_id gs = uuid (length names)"
          "current_player_index gs = 0" "direction gs = 1"
          "\<not> game_over gs" "winner gs = None"
          "discard_pile gs = [top_card gs]"
          "\<not> is_action_value (value (top_card gs))"
          "draw_pile_count gs = 108 - 7 * int (length names) - 1"
        by blast
      from g r have e: "r = (db(game_id gs \<mapsto> gs), Inr gs)" by simp
      have "inj uuid \<longrightarrow> distinct (game_id gs # map pid (players gs))"
        using dist p(3,4) by simp
      with e p show ?thesis by blast
    qed
    from iff all show "((\<exists>r. create_new_game sh uuid db names = Some r) =
        top_card_found sh (length names)) \<and>
      (\<forall>r. create_new_game sh uuid db names = Some r \<longrightarrow>
         (\<exists>gs. r = (db(game_id gs \<mapsto> gs), Inr gs) \<and>
            map name (players gs) = names \<and>
            (\<forall>p\<in>set (players gs). length (hand p) = 7 \<and> card_count p = 7) \<and>
            map pid (players gs) = map uuid [0..<length names] \<and>
            game_id gs = uuid (length names) \<and>
            (inj uuid \<longrightarrow> distinct (game_id gs # map pid (players gs))) \<and>
            current_player_index gs = 0 \<and> direction gs = 1 \<and>
            \<not> game_over gs \<and> winner gs = None \<and>
            discard_pile gs = [top_card gs] \<and>
            \<not> is_action_value (value (top_card gs)) \<and>
            draw_pile_count gs = 108 - 7 * int (length names) - 1))"
      by blast
  qed
  from 1 2 show ?thesis ..
qed

text \<open>
  One name is rejected. For Ann and Bob and the reversed deck, fourteen red number
  cards are dealt, a red 7 is the top card at once, and 93 cards are left.
\<close>

theorem create_new_game_state_witness:
  "create_new_game ex_shuffle ex_uuid Map.empty [''Ann''] = Some (Map.empty, Inl InvalidPlayerCount) \<and>
   (\<exists>gs. create_new_game ex_shuffle ex_uuid Map.empty [''Ann'', ''Bob''] =
           Some ([game_id gs \<mapsto> gs], Inr gs) \<and>
         map name (players gs) = [''Ann'', ''Bob''] \<and>
         distinct (game_id gs # map pid (players gs)) \<and>
         current_player_index gs = 0 \<and> direction gs = 1 \<and> \<not> game_over gs \<and>
         discard_pile gs = [top_card gs] \<and> draw_pile_count gs = 93)"
proof -
  have len: "length [''Ann'', ''Bob''] = 2" by simp
  have f: "top_card_found ex_shuffle 2"
    unfolding top_card_found_def
    by (rule exI [of _ 0]) (simp add: ex_first_candidate is_action_value_def)
  have 1: "create_new_game ex_shuffle ex_uuid Map.empty [''Ann''] =
      Some (Map.empty, Inl InvalidPlayerCount)"
    using create_new_game_state [of "[''Ann'']" ex_shuffle ex_uuid Map.empty] by simp
  note t = create_new_game_state [of "[''Ann'', ''Bob'']" ex_shuffle ex_uuid Map.empty, unfolded len]
  from t f ex_shuffle_is_shuffle obtain r where
    r: "create_new_game ex_shuffle ex_uuid Map.empty [''Ann'', ''Bob''] = Some r"
    by auto
  with t ex_shuffle_is_shuffle ex_uuid_inj
  have 2: "\<exists>gs. create_new_game ex_shuffle ex_uuid Map.empty [''Ann'', ''Bob''] =
           Some ([game_id gs \<mapsto> gs], Inr gs) \<and>
         map name (players gs) = [''Ann'', ''Bob''] \<and>
         distinct (game_id gs # map pid (players gs)) \<and>
         current_player_index gs = 0 \<and> direction gs = 1 \<and> \<not> game_over gs \<and>
         discard_pile gs = [top_card gs] \<and> draw_pile_count gs = 93"
    by auto
  from 1 2 show ?thesis ..
qed

text \<open>
  The claim as worded has \<^verbatim>\<open>create_new_game\<close> return for every 2 to 4 names, with
  ids that are unique. With the shuffle that moves the card at index 0 to the end of
  the list, the first candidate for Ann, Bob and Cy is a blue draw2 that comes back
  after every shuffle: no state is returned. And the ids are as different as the
  values \<^verbatim>\<open>uuid4\<close> gives: with twice the same value, Ann and Bob have the same id.
\<close>

theorem create_new_game_state_counterexample:
  "is_shuffle stuck_shuffle \<and>
   create_new_game stuck_shuffle ex_uuid Map.empty [''Ann'', ''Bob'', ''Cy''] = None \<and>
   is_shuffle ex_shuffle \<and>
   (\<exists>gs. create_new_game ex_shuffle same_uuid Map.empty [''Ann'', ''Bob''] =
           Some ([game_id gs \<mapsto> gs], Inr gs) \<and>
         map pid (players gs) = [''u'', ''u''] \<and> game_id gs = ''u'')"
proof -
  have l3: "2 \<le> length [''Ann'', ''Bob'', ''Cy'']" "length [''Ann'', ''Bob'', ''Cy''] \<le> 4"
    by simp_all
  have len3: "length [''Ann'', ''Bob'', ''Cy''] = 3" by simp
  have "\<not> top_card_found stuck_shuffle 3"
  proof
    assume "top_card_found stuck_shuffle 3"
    then obtain j where
      j: "\<not> is_action_value (value (snd (retries stuck_shuffle 1 j (first_candidate stuck_shuffle 3))))"
      by (auto simp: top_card_found_def)
    have "retries stuck_shuffle k j dc = dc" for k dc
      by (induction j arbitrary: k) (simp_all add: stuck_shuffle_def Let_def)
    with j stuck_first_candidate3 show False by simp
  qed
  with create_new_game_result [OF l3 stuck_shuffle_is_shuffle, of ex_uuid Map.empty, unfolded len3]
  have a: "create_new_game stuck_shuffle ex_uuid Map.empty [''Ann'', ''Bob'', ''Cy''] = None"
    by blast
  have l2: "2 \<le> length [''Ann'', ''Bob'']" "length [''Ann'', ''Bob''] \<le> 4"
    by simp_all
  have len2: "length [''Ann'', ''Bob''] = 2" by simp
  have f: "top_card_found ex_shuffle 2"
    unfolding top_card_found_def
    by (rule exI [of _ 0]) (simp add: ex_first_candidate is_action_value_def)
  with create_new_game_result [OF l2 ex_shuffle_is_shuffle, of same_uuid Map.empty, unfolded len2]
  have b: "\<exists>gs. create_new_game ex_shuffle same_uuid Map.empty [''Ann'', ''Bob''] =
           Some ([game_id gs \<mapsto> gs], Inr gs) \<and>
         map pid (players gs) = [''u'', ''u''] \<and> game_id gs = ''u''"
    by (auto simp: same_uuid_def upt_conv_Cons)
  from a b stuck_shuffle_is_shuffle ex_shuffle_is_shuffle show ?thesis by blast
qed

text \<open>
  Claim C7, as the code has it. For shuffles that rearrange their lists, the loop of
  \<^verbatim>\<open>create_new_game\<close> for the top card returns exactly when some round leaves a
  candidate that is not an action card; when it returns, it returns no error, the top
  card's value is none of wild, wild4, skip, reverse, draw2, and the top card and the
  deck are the cards of the candidate and the deck it started with; and a rejected
  candidate is put at index 0, the bottom of the deck, before the shuffle, the next
  candidate being the last card of the shuffled list.
\<close>

theorem initial_top_card_ends:
  assumes "is_shuffle sh"
  shows "((\<exists>r. initial_top_card sh k deck cand = Some r) =
          (\<exists>j. \<not> is_action_value (value (snd (retries sh k j (deck, cand)))))) \<and>
         (\<forall>r. initial_top_card sh k deck cand = Some r \<longrightarrow>
            (\<exists>top_c deck'. r = Inr (top_c, deck') \<and> \<not> is_action_value (value top_c) \<and>
               mset (top_c # deck') = mset (cand # deck))) \<and>
         (is_action_value (value cand) \<longrightarrow>
            initial_top_card sh k deck cand =
              initial_top_card sh (Suc k) (butlast (sh k (cand # deck))) (last (sh k (cand # deck))))"
proof (intro conjI allI impI)
  show "(\<exists>r. initial_top_card sh k deck cand = Some r) =
        (\<exists>j. \<not> is_action_value (value (snd (retries sh k j (deck, cand)))))"
    using initial_top_card_result [OF _ assms] initial_top_card_terminates [OF assms]
    by blast
next
  fix r
  assume r: "initial_top_card sh k deck cand = Some r"
  from initial_top_card_result [OF r assms] obtain j where
    "\<not> is_action_value (value (snd (retries sh k j (deck, cand))))" by blast
  from initial_top_card_terminates [OF assms this] r
  show "\<exists>top_c deck'. r = Inr (top_c, deck') \<and> \<not> is_action_value (value top_c) \<and>
               mset (top_c # deck') = mset (cand # deck)"
    by auto
next
  assume "is_action_value (value cand)"
  with assms show "initial_top_card sh k deck cand =
      initial_top_card sh (Suc k) (butlast (sh k (cand # deck))) (last (sh k (cand # deck)))"
    by (rule initial_top_card_step)
qed

text \<open>
  With the deck blue 7, green reverse (top) and the candidate red skip, and shuffles
  that change nothing: the red skip goes to the bottom, the green reverse is rejected
  next, and the blue 7 is the top card.
\<close>

theorem initial_top_card_ends_witness:
  "\<exists>deck'. initial_top_card ex_shuffle 1
       [\<lparr>color = Blue, value = ''7''\<rparr>, \<lparr>color = Green, value = ''reverse''\<rparr>]
       \<lparr>color = Red, value = ''skip''\<rparr> =
     Some (Inr (\<lparr>color = Blue, value = ''7''\<rparr>, deck')) \<and>
     mset deck' = {#\<lparr>color = Green, value = ''reverse''\<rparr>, \<lparr>color = Red, value = ''skip''\<rparr>#}"
proof -
  let ?b7 = "\<lparr>color = Blue, value = ''7''\<rparr>"
  let ?gr = "\<lparr>color = Green, value = ''reverse''\<rparr>"
  let ?rs = "\<lparr>color = Red, value = ''skip''\<rparr>"
  note t = initial_top_card_ends [OF ex_shuffle_is_shuffle]
  have a1: "is_action_value (value ?rs)" and a2: "is_action_value (value ?gr)"
    and p: "\<not> is_action_value (value ?b7)"
    by (simp_all add: is_action_value_def)
  have "initial_top_card ex_shuffle 1 [?b7, ?gr] ?rs = initial_top_card ex_shuffle 2 [?rs, ?b7] ?gr"
    using t [of 1 "[?b7, ?gr]" ?rs] a1 by (simp add: ex_shuffle_def numeral_2_eq_2)
  also have "\<dots> = initial_top_card ex_shuffle 3 [?gr, ?rs] ?b7"
    using t [of 2 "[?rs, ?b7]" ?gr] a2 by (simp add: ex_shuffle_def numeral_3_eq_3 numeral_2_eq_2)
  finally have e: "initial_top_card ex_shuffle 1 [?b7, ?gr] ?rs = initial_top_card ex_shuffle 3 [?gr, ?rs] ?b7" .
  have "initial_top_card ex_shuffle 3 [?gr, ?rs] ?b7 = Some (Inr (?b7, [?gr, ?rs]))"
    using p by (rule initial_top_card_plain)
  with e show ?thesis by simp
qed

text \<open>
  The claim as worded holds for every behaviour of the random source. The source
  whose shuffle moves the card at index 0 to the end of the list is a shuffle; for Ann
  and Bob it makes the yellow skip the first candidate and gives it back after every
  shuffle, so \<^verbatim>\<open>create_new_game\<close> never returns, although the deck holds numbered
  cards such as the red 1.
\<close>

theorem initial_top_card_ends_counterexample:
  "is_shuffle stuck_shuffle \<and>
   \<lparr>color = Red, value = ''1''\<rparr> \<in> set (fst (first_candidate stuck_shuffle 2)) \<and>
   \<not> is_action_value ''1'' \<and>
   create_new_game stuck_shuffle ex_uuid Map.empty [''Ann'', ''Bob''] = None"
proof -
  have l: "2 \<le> length [''Ann'', ''Bob'']" "length [''Ann'', ''Bob''] \<le> 4"
    by simp_all
  have len: "length [''Ann'', ''Bob''] = 2" by simp
  from create_new_game_dealt [OF l stuck_shuffle_is_shuffle, of ex_uuid Map.empty, unfolded len]
    initial_top_card_stuck [OF stuck_first_candidate]
  have "create_new_game stuck_shuffle ex_uuid Map.empty [''Ann'', ''Bob''] = None"
    by auto
  then show ?thesis
    using stuck_shuffle_is_shuffle stuck_numbered by (simp add: is_action_value_def)
qed

end
